theory Spec2Isabelle
  imports Main "HOL-Library.Word"
begin

text \<open>
  A model of the package otelsarama: the configuration options (option.go), the wrapper
  that forwards the messages of a consumer and emits a receive span and two metric
  points for each (dispatcher.go), and the operation that brackets the processing of a
  message with a span and a duration (process\_operation.go). Functions are state
  passing over a world that holds the store of the attribute slices and the log of what
  the program does to the tracing and metrics libraries and to its output channel.
\<close>

section \<open>Strings: the library calls of option.go and the decimal formatting\<close>

text \<open>
  Go strings are byte sequences; they are modelled as \<open>string\<close> (a list of \<open>char\<close>).
  \<open>strings.Split\<close> is only called with the one-byte separator \<open>":"\<close>, so the separator
  is a \<open>char\<close>. As in Go, splitting the empty string yields one empty part.
\<close>

fun Split :: "string \<Rightarrow> char \<Rightarrow> string list" where
  "Split [] sep = [] # []"
| "Split (c # cs) sep =
     (if c = sep then [] # Split cs sep
      else (case Split cs sep of
              [] \<Rightarrow> [c] # []
            | p # ps \<Rightarrow> (c # p) # ps))"

fun Join :: "string list \<Rightarrow> string \<Rightarrow> string" where
  "Join [] sep = []"
| "Join [x] sep = x"
| "Join (x # y # ys) sep = x @ sep @ Join (y # ys) sep"

definition is_digit :: "char \<Rightarrow> bool" where
  "is_digit c = (48 \<le> (of_char c :: nat) \<and> (of_char c :: nat) \<le> 57)"

definition digit_val :: "char \<Rightarrow> nat" where
  "digit_val c = (of_char c :: nat) - 48"

fun parse_digits :: "nat \<Rightarrow> string \<Rightarrow> nat option" where
  "parse_digits acc [] = Some acc"
| "parse_digits acc (c # cs) =
     (if is_digit c then parse_digits (acc * 10 + digit_val c) cs else None)"

text \<open>
  \<open>strconv.Atoi\<close> on a 64-bit platform: an optional sign, then at least one decimal
  digit and nothing else; a value outside the range of \<open>int\<close> is an error as well.
  Every error is \<open>None\<close>: the caller only tests \<open>err == nil\<close>.
\<close>

definition Atoi :: "string \<Rightarrow> int option" where
  "Atoi s =
     (case s of
        [] \<Rightarrow> None
      | c # cs \<Rightarrow>
          (let neg = (c = CHR ''-'');
               ds = (if c = CHR ''-'' \<or> c = CHR ''+'' then cs else s)
           in if ds = [] then None
              else (case parse_digits 0 ds of
                      None \<Rightarrow> None
                    | Some n \<Rightarrow>
                        (let v = (if neg then - int n else int n)
                         in if - (2 ^ 63) \<le> v \<and> v < 2 ^ 63 then Some v else None))))"

definition digit_char :: "nat \<Rightarrow> char" where
  "digit_char d = char_of (48 + d)"

fun dec :: "nat \<Rightarrow> string" where
  "dec n = (if n < 10 then [digit_char n] else dec (n div 10) @ [digit_char (n mod 10)])"

declare dec.simps [simp del]

text \<open>\<open>strconv.FormatInt(i, 10)\<close>.\<close>

definition FormatInt :: "int \<Rightarrow> string" where
  "FormatInt i = (if i < 0 then CHR ''-'' # dec (nat (- i)) else dec (nat i))"

section \<open>The telemetry interfaces, at their boundary\<close>

text \<open>
  The tracing, metrics and propagation libraries are external. A provider is an opaque
  handle; the tracer or meter it hands out, and the instruments a meter creates, are
  identified by the arguments of the call that created them. An interface value that
  may be \<open>nil\<close> has an \<open>option\<close> type, \<open>None\<close> being \<open>nil\<close>.
\<close>

datatype TracerProvider = TracerProviderHandle nat
datatype MeterProvider = MeterProviderHandle nat

datatype Tracer = MkTracer TracerProvider string string
datatype Meter = MkMeter MeterProvider string string

datatype Float64Histogram = MkFloat64Histogram Meter string string
datatype Int64Counter = MkInt64Counter Meter string

datatype SpanContext = MkSpanContext (TraceID: string) (SpanID: string)

text \<open>
  A \<open>context.Context\<close> as far as this package looks at it: the background context, or a
  context carrying a valid remote span context (what a propagator's \<open>Extract\<close> returns
  for headers that hold one).
\<close>

datatype Context = Background | WithRemoteSpanContext SpanContext

record ConsumerMessage =
  Topic :: string
  Partition :: "32 word"
  Offset :: "64 word"
  Key :: string
  Value :: string
  Headers :: "(string \<times> string) list"

text \<open>
  A propagator is used through \<open>Extract(context.Background(), NewConsumerMessageCarrier(msg))\<close>
  only. The carrier type is declared outside the files at hand, so a propagator is
  the function from the message to the extracted context.
\<close>

type_synonym TextMapPropagator = "ConsumerMessage \<Rightarrow> Context"

section \<open>option.go\<close>

definition defaultTracerName :: string where
  "defaultTracerName = ''go.opentelemetry.io/contrib/instrumentation/github.com/IBM/sarama/otelsarama''"

definition defaultMeterName :: string where
  "defaultMeterName = defaultTracerName"

record config =
  TracerProvider :: "TracerProvider option"
  MeterProvider :: "MeterProvider option"
  Propagators :: "TextMapPropagator option"
  Tracer :: "Tracer option"
  Meter :: "Meter option"
  ServerAddress :: string
  ServerPort :: int
  ConsumerGroupID :: string

text \<open>The zero value of the struct.\<close>

definition zero_config :: config where
  "zero_config =
     \<lparr>TracerProvider = None, MeterProvider = None, Propagators = None,
      Tracer = None, Meter = None,
      ServerAddress = [], ServerPort = 0, ConsumerGroupID = []\<rparr>"

text \<open>
  The four option constructors; an \<open>Option\<close> is the closure they return, here the
  constructor with its captured argument. \<open>apply_opt\<close> runs the closure on the
  configuration. Indexing a slice out of range panics: \<open>None\<close>.
\<close>

datatype Option =
    WithTracerProvider "TracerProvider option"
  | WithPropagators "TextMapPropagator option"
  | WithBrokerAddresses "string list"
  | WithConsumerGroup string

fun apply_opt :: "Option \<Rightarrow> config \<Rightarrow> config option" where
  "apply_opt (WithTracerProvider provider) cfg =
     (case provider of
        Some p \<Rightarrow> Some (cfg\<lparr>TracerProvider := Some p\<rparr>)
      | None \<Rightarrow> Some cfg)"
| "apply_opt (WithPropagators propagators) cfg =
     (case propagators of
        Some p \<Rightarrow> Some (cfg\<lparr>Propagators := Some p\<rparr>)
      | None \<Rightarrow> Some cfg)"
| "apply_opt (WithBrokerAddresses addresses) cfg =
     (if length addresses = 1 then
        (case addresses of
           [] \<Rightarrow> None
         | a0 # _ \<Rightarrow>
            (let uriParts = Split a0 CHR '':'' in
             case uriParts of
               [] \<Rightarrow> None
             | p0 # rest \<Rightarrow>
                (let cfg1 = cfg\<lparr>ServerAddress := p0\<rparr> in
                 if length uriParts > 1 then
                   (case rest of
                      [] \<Rightarrow> None
                    | p1 # _ \<Rightarrow>
                       (case Atoi p1 of
                          Some iPort \<Rightarrow> Some (cfg1\<lparr>ServerPort := iPort\<rparr>)
                        | None \<Rightarrow> Some cfg1))
                 else Some cfg1)))
      else Some (cfg\<lparr>ServerAddress := Join addresses '';''\<rparr>))"
| "apply_opt (WithConsumerGroup groupID) cfg = Some (cfg\<lparr>ConsumerGroupID := groupID\<rparr>)"

fun apply_opts :: "Option list \<Rightarrow> config \<Rightarrow> config option" where
  "apply_opts [] cfg = Some cfg"
| "apply_opts (opt # opts) cfg =
     (case apply_opt opt cfg of
        None \<Rightarrow> None
      | Some cfg' \<Rightarrow> apply_opts opts cfg')"

text \<open>
  The process-wide providers that \<open>otel.GetTextMapPropagator\<close>, \<open>otel.GetTracerProvider\<close>
  and \<open>otel.GetMeterProvider\<close> return (never \<open>nil\<close>), and the string of \<open>Version()\<close>,
  which is declared outside the files at hand, are parameters.
\<close>

record globals =
  GlobalTextMapPropagator :: TextMapPropagator
  GlobalTracerProvider :: TracerProvider
  GlobalMeterProvider :: MeterProvider
  Version :: string

definition newConfig :: "globals \<Rightarrow> Option list \<Rightarrow> config option" where
  "newConfig g opts =
     (let cfg = zero_config\<lparr>Propagators := Some (GlobalTextMapPropagator g),
                            TracerProvider := Some (GlobalTracerProvider g),
                            MeterProvider := Some (GlobalMeterProvider g)\<rparr>
      in case apply_opts opts cfg of
           None \<Rightarrow> None
         | Some cfg1 \<Rightarrow>
            (case TracerProvider cfg1 of
               None \<Rightarrow> None
             | Some tp \<Rightarrow>
                (let cfg2 = cfg1\<lparr>Tracer := Some (MkTracer tp defaultTracerName (Version g))\<rparr> in
                 case MeterProvider cfg2 of
                   None \<Rightarrow> None
                 | Some mp \<Rightarrow>
                    Some (cfg2\<lparr>Meter := Some (MkMeter mp defaultMeterName (Version g))\<rparr>))))"

section \<open>Attributes and slices of attributes\<close>

text \<open>An \<open>attribute.KeyValue\<close>: a key and a typed value. The zero value has the empty key
  and the invalid type.\<close>

datatype AttrValue = INVALID | STRING string | INT64 int

type_synonym KeyValue = "string \<times> AttrValue"

definition zero_KeyValue :: KeyValue where
  "zero_KeyValue = ([], INVALID)"

definition attribute_String :: "string \<Rightarrow> string \<Rightarrow> KeyValue" where
  "attribute_String k v = (k, STRING v)"

definition attribute_Int :: "string \<Rightarrow> int \<Rightarrow> KeyValue" where
  "attribute_Int k v = (k, INT64 v)"

text \<open>The two constructors of semconv v1.17.0 that the package calls.\<close>

definition MessagingSystem :: "string \<Rightarrow> KeyValue" where
  "MessagingSystem v = (''messaging.system'', STRING v)"

definition MessagingDestinationName :: "string \<Rightarrow> KeyValue" where
  "MessagingDestinationName v = (''messaging.destination.name'', STRING v)"

text \<open>
  A Go slice is a view of a backing array: the array's address, a length and a capacity.
  No slice of this package is resliced, so every view starts at index 0 of its array
  and the capacity is the array's size. The store maps an address to the array's
  contents; a fresh array gets the next address. The \<open>nil\<close> slice has length and
  capacity 0.

  \<open>append\<close> writes in place, behind the slice's length, when the capacity suffices,
  and otherwise copies into a fresh array. How much capacity the runtime gives a fresh
  array is its own business (at least what is needed): it is the parameter
  \<open>growslice\<close>, from the old capacity and the needed length to the new capacity.
\<close>

record slice =
  ptr :: nat
  len :: nat
  cap :: nat

type_synonym store = "KeyValue list list"

definition nil_slice :: slice where
  "nil_slice = \<lparr>ptr = 0, len = 0, cap = 0\<rparr>"

definition slice_elems :: "store \<Rightarrow> slice \<Rightarrow> KeyValue list" where
  "slice_elems h s = take (len s) (h ! ptr s)"

definition slice_literal :: "store \<Rightarrow> KeyValue list \<Rightarrow> store \<times> slice" where
  "slice_literal h vs = (h @ [vs], \<lparr>ptr = length h, len = length vs, cap = length vs\<rparr>)"

definition append_slice ::
  "(nat \<Rightarrow> nat \<Rightarrow> nat) \<Rightarrow> store \<Rightarrow> slice \<Rightarrow> KeyValue list \<Rightarrow> store \<times> slice" where
  "append_slice grow h s vs =
     (let n = len s + length vs in
      if n \<le> cap s then
        (h[ptr s := take (len s) (h ! ptr s) @ vs @ drop n (h ! ptr s)], s\<lparr>len := n\<rparr>)
      else
        (let newcap = max n (grow (cap s) n);
             arr = take (len s) (h ! ptr s) @ vs @ replicate (newcap - n) zero_KeyValue
         in (h @ [arr], \<lparr>ptr = length h, len = n, cap = newcap\<rparr>)))"

section \<open>The observable world\<close>

datatype SpanKind = SpanKindInternal | SpanKindServer | SpanKindClient
  | SpanKindProducer | SpanKindConsumer

text \<open>A \<open>trace.Link\<close> holds the span context it points to; \<open>None\<close> is the empty span
  context, which is what the background context yields.\<close>

datatype Link = MkLink "SpanContext option"

fun SpanContextFromContext :: "Context \<Rightarrow> SpanContext option" where
  "SpanContextFromContext Background = None"
| "SpanContextFromContext (WithRemoteSpanContext sc) = Some sc"

definition LinkFromContext :: "Context \<Rightarrow> Link" where
  "LinkFromContext ctx = MkLink (SpanContextFromContext ctx)"

datatype SpanStartOption =
    WithAttributes "KeyValue list"
  | WithSpanKind SpanKind
  | WithLinks "Link list"
  | WithNewRoot

text \<open>
  What the program does to the outside is a chronological log of events: a span started
  (its handle, the tracer, and the three arguments of \<open>Tracer.Start\<close>: the context, the
  name, the options), a span ended, a message delivered on the output channel, the
  output channel closed, a histogram record and a counter addition. Attribute slices
  are passed by value of their elements at the time of the call. A duration is the
  difference of two clock readings, in nanoseconds; its conversion to floating-point
  seconds is left out.
\<close>

datatype event =
    SpanStarted nat Tracer Context string "SpanStartOption list"
  | SpanEnded nat
  | Sent ConsumerMessage
  | Closed
  | Recorded Float64Histogram int "KeyValue list"
  | Added Int64Counter int "KeyValue list"

record world =
  heap :: store
  events :: "event list"
  spans :: nat
  ticks :: nat

text \<open>The runtime: the growth policy of \<open>append\<close> and the clock, as the reading that
  the n-th call of \<open>time.Now\<close> returns.\<close>

record runtime =
  growslice :: "nat \<Rightarrow> nat \<Rightarrow> nat"
  clock :: "nat \<Rightarrow> int"

definition emit :: "event \<Rightarrow> world \<Rightarrow> world" where
  "emit e s = s\<lparr>events := events s @ [e]\<rparr>"

definition Now :: "runtime \<Rightarrow> world \<Rightarrow> int \<times> world" where
  "Now rt s = (clock rt (ticks s), s\<lparr>ticks := Suc (ticks s)\<rparr>)"

definition go_append :: "runtime \<Rightarrow> slice \<Rightarrow> KeyValue list \<Rightarrow> world \<Rightarrow> slice \<times> world" where
  "go_append rt sl vs s =
     (case append_slice (growslice rt) (heap s) sl vs of
        (h', sl') \<Rightarrow> (sl', s\<lparr>heap := h'\<rparr>))"

text \<open>
  A call returns, panics (a method called on a \<open>nil\<close> interface value, an index out of
  range), or blocks for ever on a channel send that nobody receives.
\<close>

datatype 'a outcome = Returned 'a | Panicked | Blocked

section \<open>dispatcher.go\<close>

text \<open>
  The wrapper struct. Its input dispatcher \<open>d\<close> is the sequence of messages that the
  channel \<open>d.Messages()\<close> yields before it closes, an argument of \<open>Run\<close>; its unbuffered
  output channel \<open>messages\<close> is the \<open>Sent\<close> and \<open>Closed\<close> events of the log.
\<close>

record consumerMessagesDispatcherWrapper =
  receiveDuration :: "Float64Histogram option"
  consumedMessages :: "Int64Counter option"
  dw_defaultAttributes :: slice
  dw_cfg :: config

text \<open>A meter hands out an instrument for every request (the error it may return along
  with it is dropped by the caller).\<close>

definition newConsumerMessagesDispatcherWrapper ::
  "runtime \<Rightarrow> config \<Rightarrow> world \<Rightarrow> consumerMessagesDispatcherWrapper outcome \<times> world" where
  "newConsumerMessagesDispatcherWrapper rt c s0 =
     (case Meter c of
        None \<Rightarrow> (Panicked, s0)
      | Some m \<Rightarrow>
         (let rd = MkFloat64Histogram m ''messaging.client.operation.duration'' ''s'';
              cm = MkInt64Counter m ''messaging.client.consumed.messages''
          in case slice_literal (heap s0)
                    [MessagingSystem ''kafka'',
                     attribute_String ''messaging.operation.name'' ''receive''] of
               (h1, da1) \<Rightarrow>
                 (case (if ServerAddress c \<noteq> []
                        then go_append rt da1 [attribute_String ''server.address'' (ServerAddress c)]
                               (s0\<lparr>heap := h1\<rparr>)
                        else (da1, s0\<lparr>heap := h1\<rparr>)) of
                    (da2, s2) \<Rightarrow>
                      (case (if ServerPort c \<noteq> 0
                             then go_append rt da2 [attribute_Int ''server.port'' (ServerPort c)] s2
                             else (da2, s2)) of
                         (da3, s3) \<Rightarrow>
                           (case (if ConsumerGroupID c \<noteq> []
                                  then go_append rt da3
                                         [attribute_String ''messaging.consumer.group.name''
                                            (ConsumerGroupID c)] s3
                                  else (da3, s3)) of
                              (da4, s4) \<Rightarrow>
                                (Returned \<lparr>receiveDuration = Some rd, consumedMessages = Some cm,
                                           dw_defaultAttributes = da4, dw_cfg = c\<rparr>, s4))))))"

text \<open>
  One iteration of the loop of \<open>Run\<close>, for the message taken from the input. \<open>demand\<close> is
  the number of messages the reader of the output channel will still receive: the send
  completes when it is positive and blocks for ever when it is 0. The iteration returns
  the demand that is left.
\<close>

definition Run_iteration ::
  "runtime \<Rightarrow> consumerMessagesDispatcherWrapper \<Rightarrow> ConsumerMessage \<Rightarrow> nat \<Rightarrow> world
     \<Rightarrow> nat outcome \<times> world" where
  "Run_iteration rt w msg demand s0 =
    (case Now rt s0 of (start, s1) \<Rightarrow>
     (case Propagators (dw_cfg w) of
        None \<Rightarrow> (Panicked, s1)
      | Some propagators \<Rightarrow>
     (let parentSpanContext = propagators msg in
      case go_append rt (dw_defaultAttributes w)
             [MessagingDestinationName (Topic msg),
              attribute_String ''messaging.destination.partition.id''
                (FormatInt (sint (Partition msg)))] s1 of (attrs, s2) \<Rightarrow>
     (case go_append rt attrs
             [attribute_String ''messaging.message.id'' (FormatInt (sint (Offset msg)))] s2 of
        (spanAttrs, s3) \<Rightarrow>
     (let opts = [WithAttributes (slice_elems (heap s3) spanAttrs),
                  WithLinks [LinkFromContext parentSpanContext]]
      in case Tracer (dw_cfg w) of
           None \<Rightarrow> (Panicked, s3)
         | Some tracer \<Rightarrow>
     (let span = spans s3;
          s4 = emit (SpanStarted span tracer parentSpanContext (Topic msg @ '' receive'') opts)
                 (s3\<lparr>spans := Suc span\<rparr>)
      in if demand = 0 then (Blocked, s4)
         else
     (let s5 = emit (Sent msg) s4;
          s6 = emit (SpanEnded span) s5
      in case Now rt s6 of (t, s7) \<Rightarrow>
     (case receiveDuration w of
        None \<Rightarrow> (Panicked, s7)
      | Some rd \<Rightarrow>
     (let s8 = emit (Recorded rd (t - start) (slice_elems (heap s7) attrs)) s7
      in case consumedMessages w of
           None \<Rightarrow> (Panicked, s8)
         | Some cm \<Rightarrow>
            (Returned (demand - 1),
             emit (Added cm 1 (slice_elems (heap s8) attrs)) s8))))))))))"

fun Run_loop ::
  "runtime \<Rightarrow> consumerMessagesDispatcherWrapper \<Rightarrow> ConsumerMessage list \<Rightarrow> nat \<Rightarrow> world
     \<Rightarrow> unit outcome \<times> world" where
  "Run_loop rt w [] demand s = (Returned (), s)"
| "Run_loop rt w (msg # msgs) demand s =
     (case Run_iteration rt w msg demand s of
        (Returned demand', s') \<Rightarrow> Run_loop rt w msgs demand' s'
      | (Panicked, s') \<Rightarrow> (Panicked, s')
      | (Blocked, s') \<Rightarrow> (Blocked, s'))"

definition Run ::
  "runtime \<Rightarrow> consumerMessagesDispatcherWrapper \<Rightarrow> ConsumerMessage list \<Rightarrow> nat \<Rightarrow> world
     \<Rightarrow> unit outcome \<times> world" where
  "Run rt w msgs demand s =
     (case Run_loop rt w msgs demand s of
        (Returned u, s') \<Rightarrow> (Returned (), emit Closed s')
      | (Panicked, s') \<Rightarrow> (Panicked, s')
      | (Blocked, s') \<Rightarrow> (Blocked, s'))"

section \<open>process\_operation.go\<close>

record MessageProcessInstrumenter =
  pi_cfg :: config
  metricProcessDuration :: "Float64Histogram option"
  pi_defaultAttributes :: slice

definition zero_MessageProcessInstrumenter :: MessageProcessInstrumenter where
  "zero_MessageProcessInstrumenter =
     \<lparr>pi_cfg = zero_config, metricProcessDuration = None, pi_defaultAttributes = nil_slice\<rparr>"

definition NewMessageProcessInstrumenter ::
  "runtime \<Rightarrow> globals \<Rightarrow> Option list \<Rightarrow> world \<Rightarrow> MessageProcessInstrumenter outcome \<times> world" where
  "NewMessageProcessInstrumenter rt g opts s0 =
     (case newConfig g opts of
        None \<Rightarrow> (Panicked, s0)
      | Some c \<Rightarrow>
         (case Meter c of
            None \<Rightarrow> (Panicked, s0)
          | Some m \<Rightarrow>
             (let processDuration = MkFloat64Histogram m ''messaging.client.process.duration'' ''s''
              in case slice_literal (heap s0)
                        [MessagingSystem ''kafka'',
                         attribute_String ''messaging.operation.name'' ''process''] of
                   (h1, da1) \<Rightarrow>
                     (case (if ServerAddress c \<noteq> []
                            then go_append rt da1
                                   [attribute_String ''server.address'' (ServerAddress c)]
                                   (s0\<lparr>heap := h1\<rparr>)
                            else (da1, s0\<lparr>heap := h1\<rparr>)) of
                        (da2, s2) \<Rightarrow>
                          (case (if ServerPort c \<noteq> 0
                                 then go_append rt da2
                                        [attribute_Int ''server.port'' (ServerPort c)] s2
                                 else (da2, s2)) of
                             (da3, s3) \<Rightarrow>
                               (Returned \<lparr>pi_cfg = c, metricProcessDuration = Some processDuration,
                                          pi_defaultAttributes = da3\<rparr>, s3))))))"

text \<open>
  The operation struct. An \<open>error\<close> is the text its \<open>Error()\<close> method returns, \<open>None\<close>
  being the \<open>nil\<close> error; the span is its handle, \<open>None\<close> being the \<open>nil\<close> interface.
\<close>

record MessageProcessOperation =
  instrumenter :: MessageProcessInstrumenter
  err :: "string option"
  start :: int
  span :: "nat option"
  topic :: string
  partition :: string

text \<open>The composite literal that \<open>NewProcessOperation\<close> returns sets \<open>span\<close>, \<open>topic\<close>,
  \<open>partition\<close> and \<open>start\<close>; the fields it does not name, \<open>instrumenter\<close> and \<open>err\<close>,
  have their zero values.\<close>

definition NewProcessOperation ::
  "runtime \<Rightarrow> MessageProcessInstrumenter \<Rightarrow> ConsumerMessage \<Rightarrow> world
     \<Rightarrow> MessageProcessOperation outcome \<times> world" where
  "NewProcessOperation rt inst msg s0 =
     (case Propagators (pi_cfg inst) of
        None \<Rightarrow> (Panicked, s0)
      | Some propagators \<Rightarrow>
         (let parentSpanContext = propagators msg in
          case go_append rt (pi_defaultAttributes inst)
                 [MessagingDestinationName (Topic msg),
                  attribute_String ''messaging.message.id'' (FormatInt (sint (Offset msg))),
                  attribute_String ''messaging.destination.partition.id''
                    (FormatInt (sint (Partition msg)))] s0 of
            (attrs, s1) \<Rightarrow>
              (let opts = [WithAttributes (slice_elems (heap s1) attrs),
                           WithSpanKind SpanKindConsumer,
                           WithLinks [LinkFromContext parentSpanContext]]
               in case Tracer (pi_cfg inst) of
                    None \<Rightarrow> (Panicked, s1)
                  | Some tracer \<Rightarrow>
                     (let sp = spans s1;
                          s2 = emit (SpanStarted sp tracer parentSpanContext
                                       (Topic msg @ '' process'') opts)
                                 (s1\<lparr>spans := Suc sp\<rparr>)
                      in case Now rt s2 of
                           (t, s3) \<Rightarrow>
                             (Returned \<lparr>instrumenter = zero_MessageProcessInstrumenter,
                                        err = None,
                                        start = t,
                                        span = Some sp,
                                        topic = Topic msg,
                                        partition = FormatInt (sint (Partition msg))\<rparr>, s3)))))"

definition SetError :: "string option \<Rightarrow> MessageProcessOperation \<Rightarrow> MessageProcessOperation" where
  "SetError e op = op\<lparr>err := e\<rparr>"

definition Stop :: "runtime \<Rightarrow> MessageProcessOperation \<Rightarrow> world \<Rightarrow> unit outcome \<times> world" where
  "Stop rt op s0 =
     (case span op of
        None \<Rightarrow> (Panicked, s0)
      | Some sp \<Rightarrow>
         (let s1 = emit (SpanEnded sp) s0 in
          case go_append rt (pi_defaultAttributes (instrumenter op))
                 [MessagingDestinationName (topic op),
                  attribute_String ''messaging.destination.partition.id'' (partition op)] s1 of
            (attrs, s2) \<Rightarrow>
              (case (case err op of
                       Some etext \<Rightarrow> go_append rt attrs [attribute_String ''error.type'' etext] s2
                     | None \<Rightarrow> (attrs, s2)) of
                 (attrs', s3) \<Rightarrow>
                   (case Now rt s3 of
                      (t, s4) \<Rightarrow>
                        (case metricProcessDuration (instrumenter op) of
                           None \<Rightarrow> (Panicked, s4)
                         | Some h \<Rightarrow>
                            (Returned (),
                             emit (Recorded h (t - start op) (slice_elems (heap s4) attrs')) s4))))))"

section \<open>Notions used to state the properties\<close>

text \<open>
  A slice is in order in a store when its length is within its capacity and, unless the
  capacity is 0, its array exists and has the size of the capacity.
\<close>

definition heap_ok :: "store \<Rightarrow> slice \<Rightarrow> bool" where
  "heap_ok h s = (len s \<le> cap s \<and> (0 < cap s \<longrightarrow> ptr s < length h \<and> length (h ! ptr s) = cap s))"

text \<open>
  An \<open>append\<close> to the slice \<open>s\<close> cannot write into the elements of the slice \<open>t\<close> when
  \<open>t\<close> is no longer than \<open>s\<close>, or views another array, or \<open>s\<close> has no capacity at all.
\<close>

definition out_of_reach :: "slice \<Rightarrow> slice \<Rightarrow> bool" where
  "out_of_reach t s = (len t \<le> len s \<or> ptr t \<noteq> ptr s \<or> cap s = 0)"

text \<open>The default attributes as the specification lists them, for the wrapper and for
  the instrumenter: the system, the operation name, and the server address, the server
  port and (wrapper only) the consumer group when they are set. That the constructors
  build these lists is proved below (\<open>wrapper_constructed\<close>, \<open>instrumenter_constructed\<close>).\<close>

definition receive_defaults :: "config \<Rightarrow> KeyValue list" where
  "receive_defaults c =
     [(''messaging.system'', STRING ''kafka''),
      (''messaging.operation.name'', STRING ''receive'')]
     @ (if ServerAddress c \<noteq> [] then [(''server.address'', STRING (ServerAddress c))] else [])
     @ (if ServerPort c \<noteq> 0 then [(''server.port'', INT64 (ServerPort c))] else [])
     @ (if ConsumerGroupID c \<noteq> []
        then [(''messaging.consumer.group.name'', STRING (ConsumerGroupID c))] else [])"

definition process_defaults :: "config \<Rightarrow> KeyValue list" where
  "process_defaults c =
     [(''messaging.system'', STRING ''kafka''),
      (''messaging.operation.name'', STRING ''process'')]
     @ (if ServerAddress c \<noteq> [] then [(''server.address'', STRING (ServerAddress c))] else [])
     @ (if ServerPort c \<noteq> 0 then [(''server.port'', INT64 (ServerPort c))] else [])"

text \<open>A list of attributes extended with the destination and the partition of a message.\<close>

definition with_destination :: "KeyValue list \<Rightarrow> string \<Rightarrow> string \<Rightarrow> KeyValue list" where
  "with_destination D t p =
     D @ [(''messaging.destination.name'', STRING t),
          (''messaging.destination.partition.id'', STRING p)]"

definition receive_attributes :: "KeyValue list \<Rightarrow> ConsumerMessage \<Rightarrow> KeyValue list" where
  "receive_attributes D m = with_destination D (Topic m) (FormatInt (sint (Partition m)))"

definition message_id :: "ConsumerMessage \<Rightarrow> KeyValue" where
  "message_id m = (''messaging.message.id'', STRING (FormatInt (sint (Offset m))))"

text \<open>
  The events that the wrapper is said to produce for one message, in their order, for
  the span handle \<open>sp\<close> and the clock readings number \<open>tk\<close> and \<open>tk + 1\<close>; and for a
  sequence of messages, one after the other.
\<close>

definition receive_start ::
  "Tracer \<Rightarrow> TextMapPropagator \<Rightarrow> KeyValue list \<Rightarrow> nat \<Rightarrow> ConsumerMessage \<Rightarrow> event" where
  "receive_start tr pr D sp m =
     SpanStarted sp tr (pr m) (Topic m @ '' receive'')
       [WithAttributes (receive_attributes D m @ [message_id m]),
        WithLinks [LinkFromContext (pr m)]]"

definition receive_events ::
  "runtime \<Rightarrow> Tracer \<Rightarrow> TextMapPropagator \<Rightarrow> Float64Histogram \<Rightarrow> Int64Counter \<Rightarrow> KeyValue list
     \<Rightarrow> nat \<Rightarrow> nat \<Rightarrow> ConsumerMessage \<Rightarrow> event list" where
  "receive_events rt tr pr rd cm D sp tk m =
     [receive_start tr pr D sp m,
      Sent m,
      SpanEnded sp,
      Recorded rd (clock rt (Suc tk) - clock rt tk) (receive_attributes D m),
      Added cm 1 (receive_attributes D m)]"

fun receive_trace ::
  "runtime \<Rightarrow> Tracer \<Rightarrow> TextMapPropagator \<Rightarrow> Float64Histogram \<Rightarrow> Int64Counter \<Rightarrow> KeyValue list
     \<Rightarrow> nat \<Rightarrow> nat \<Rightarrow> ConsumerMessage list \<Rightarrow> event list" where
  "receive_trace rt tr pr rd cm D sp tk [] = []"
| "receive_trace rt tr pr rd cm D sp tk (m # ms) =
     receive_events rt tr pr rd cm D sp tk m @
     receive_trace rt tr pr rd cm D (Suc sp) (tk + 2) ms"

text \<open>What a log says: the messages delivered on the output channel, the histogram
  records and the counter additions with their attributes, and the spans started.\<close>

fun delivered :: "event list \<Rightarrow> ConsumerMessage list" where
  "delivered [] = []"
| "delivered (Sent m # es) = m # delivered es"
| "delivered (e # es) = delivered es"

fun histogram_records :: "event list \<Rightarrow> (Float64Histogram \<times> KeyValue list) list" where
  "histogram_records [] = []"
| "histogram_records (Recorded h d kvs # es) = (h, kvs) # histogram_records es"
| "histogram_records (e # es) = histogram_records es"

fun counter_additions :: "event list \<Rightarrow> (Int64Counter \<times> int \<times> KeyValue list) list" where
  "counter_additions [] = []"
| "counter_additions (Added c n kvs # es) = (c, n, kvs) # counter_additions es"
| "counter_additions (e # es) = counter_additions es"

fun span_starts :: "event list \<Rightarrow> (Context \<times> string \<times> SpanStartOption list) list" where
  "span_starts [] = []"
| "span_starts (SpanStarted sp tr ctx name opts # es) = (ctx, name, opts) # span_starts es"
| "span_starts (e # es) = span_starts es"

text \<open>
  The contract of \<open>Tracer.Start\<close>, an interface of the tracing library: the new span is
  a child of the span context that the context argument carries, unless the option for
  a new root is given. The links of the span are the links of its options that point to
  a valid span context: the tracer drops a link to the empty span context, which is
  what \<open>LinkFromContext\<close> yields for a context that carries none. A span context that a
  context carries is valid (a propagator extracts no other).
\<close>

definition span_parent :: "Context \<Rightarrow> SpanStartOption list \<Rightarrow> SpanContext option" where
  "span_parent ctx opts = (if WithNewRoot \<in> set opts then None else SpanContextFromContext ctx)"

fun links_kept :: "Link list \<Rightarrow> Link list" where
  "links_kept [] = []"
| "links_kept (MkLink None # ls) = links_kept ls"
| "links_kept (MkLink (Some sc) # ls) = MkLink (Some sc) # links_kept ls"

fun span_links :: "SpanStartOption list \<Rightarrow> Link list" where
  "span_links [] = []"
| "span_links (WithLinks ls # opts) = links_kept ls @ span_links opts"
| "span_links (opt # opts) = span_links opts"

text \<open>The handles of the spans started and of the spans ended in a log, in order.\<close>

fun started_spans :: "event list \<Rightarrow> nat list" where
  "started_spans [] = []"
| "started_spans (SpanStarted sp tr ctx name opts # es) = sp # started_spans es"
| "started_spans (e # es) = started_spans es"

fun ended_spans :: "event list \<Rightarrow> nat list" where
  "ended_spans [] = []"
| "ended_spans (SpanEnded sp # es) = sp # ended_spans es"
| "ended_spans (e # es) = ended_spans es"

text \<open>For every span started in a log: its parent and its links.\<close>

fun span_relations :: "event list \<Rightarrow> (SpanContext option \<times> Link list) list" where
  "span_relations [] = []"
| "span_relations (SpanStarted sp tr ctx name opts # es) =
     (span_parent ctx opts, span_links opts) # span_relations es"
| "span_relations (e # es) = span_relations es"

text \<open>The events a call has added to the log.\<close>

definition new_events :: "world \<Rightarrow> world \<Rightarrow> event list" where
  "new_events s s' = drop (length (events s)) (events s')"

section \<open>A concrete setting\<close>

text \<open>
  A runtime that doubles the capacity when a slice grows (as Go does for short slices)
  and whose clock advances by a millisecond per reading; a propagator that reads the
  header \<open>traceparent\<close>; providers; the empty world; two messages.
\<close>

definition ex_runtime :: runtime where
  "ex_runtime = \<lparr>growslice = (\<lambda>old n. 2 * old), clock = (\<lambda>n. 1000000 * int n)\<rparr>"

definition ex_propagator :: TextMapPropagator where
  "ex_propagator m =
     (case map_of (Headers m) ''traceparent'' of
        None \<Rightarrow> Background
      | Some v \<Rightarrow> WithRemoteSpanContext (MkSpanContext v ''01''))"

definition ex_globals :: globals where
  "ex_globals =
     \<lparr>GlobalTextMapPropagator = ex_propagator,
      GlobalTracerProvider = TracerProviderHandle 0,
      GlobalMeterProvider = MeterProviderHandle 0,
      Version = ''0.1''\<rparr>"

definition ex_world :: world where
  "ex_world = \<lparr>heap = [], events = [], spans = 0, ticks = 0\<rparr>"

definition ex_msg1 :: ConsumerMessage where
  "ex_msg1 = \<lparr>Topic = ''orders'', Partition = 3, Offset = 42, Key = ''k1'', Value = ''v1'',
              Headers = [(''traceparent'', ''abc'')]\<rparr>"

definition ex_msg2 :: ConsumerMessage where
  "ex_msg2 = \<lparr>Topic = ''orders'', Partition = 3, Offset = 43, Key = ''k2'', Value = ''v2'',
              Headers = []\<rparr>"

definition ex_options :: "Option list" where
  "ex_options = [WithBrokerAddresses [''localhost:9092''], WithConsumerGroup ''billing'']"

definition ex_tracer :: Tracer where
  "ex_tracer = MkTracer (TracerProviderHandle 0) defaultTracerName ''0.1''"

definition ex_meter :: Meter where
  "ex_meter = MkMeter (MeterProviderHandle 0) defaultMeterName ''0.1''"

text \<open>The configuration that \<open>newConfig\<close> resolves from these options, and the wrapper
  that the constructor builds from it in the empty world: its five default attributes
  sit in an array of capacity 8.\<close>

definition ex_config :: config where
  "ex_config =
     \<lparr>TracerProvider = Some (TracerProviderHandle 0),
      MeterProvider = Some (MeterProviderHandle 0),
      Propagators = Some ex_propagator,
      Tracer = Some ex_tracer,
      Meter = Some ex_meter,
      ServerAddress = ''localhost'', ServerPort = 9092, ConsumerGroupID = ''billing''\<rparr>"

definition ex_wrapper :: consumerMessagesDispatcherWrapper where
  "ex_wrapper =
     \<lparr>receiveDuration =
        Some (MkFloat64Histogram ex_meter ''messaging.client.operation.duration'' ''s''),
      consumedMessages = Some (MkInt64Counter ex_meter ''messaging.client.consumed.messages''),
      dw_defaultAttributes = \<lparr>ptr = 2, len = 5, cap = 8\<rparr>,
      dw_cfg = ex_config\<rparr>"

definition ex_world1 :: world where
  "ex_world1 = snd (newConsumerMessagesDispatcherWrapper ex_runtime ex_config ex_world)"

text \<open>The instrumenter that \<open>NewMessageProcessInstrumenter\<close> builds from the same options
  in the empty world, the world it leaves, and the operation opened there for the first
  message.\<close>

definition ex_instrumenter :: MessageProcessInstrumenter where
  "ex_instrumenter =
     \<lparr>pi_cfg = ex_config,
      metricProcessDuration =
        Some (MkFloat64Histogram ex_meter ''messaging.client.process.duration'' ''s''),
      pi_defaultAttributes = \<lparr>ptr = 1, len = 4, cap = 4\<rparr>\<rparr>"

definition ex_world2 :: world where
  "ex_world2 = snd (NewMessageProcessInstrumenter ex_runtime ex_globals ex_options ex_world)"

definition ex_operation :: MessageProcessOperation where
  "ex_operation =
     \<lparr>instrumenter = zero_MessageProcessInstrumenter,
      err = None,
      start = 0,
      span = Some 0,
      topic = ''orders'',
      partition = ''3''\<rparr>"

definition ex_world3 :: world where
  "ex_world3 = snd (NewProcessOperation ex_runtime ex_instrumenter ex_msg1 ex_world2)"


section \<open>Strings and configuration\<close>

lemma Split_not_Nil: "Split s c \<noteq> []"
  by (induction s) (auto split: list.splits)



lemma apply_opt_total: "\<exists>c. apply_opt opt cfg = Some c"
proof (cases opt)
  case (WithBrokerAddresses as)
  then show ?thesis
    using Split_not_Nil by (auto split: option.splits list.splits simp: Let_def)
qed (auto split: option.splits)

lemma apply_opts_append:
  "apply_opts (xs @ ys) cfg =
     (case apply_opts xs cfg of None \<Rightarrow> None | Some c \<Rightarrow> apply_opts ys c)"
  by (induction xs arbitrary: cfg) (auto split: option.splits)

lemma apply_opt_keeps_providers:
  "apply_opt opt cfg = Some c \<Longrightarrow> TracerProvider cfg \<noteq> None \<Longrightarrow> MeterProvider cfg \<noteq> None
   \<Longrightarrow> Propagators cfg \<noteq> None
   \<Longrightarrow> TracerProvider c \<noteq> None \<and> MeterProvider c \<noteq> None \<and> Propagators c \<noteq> None"
  by (cases opt) (auto split: option.splits list.splits if_splits simp: Let_def)

lemma apply_opts_total:
  "TracerProvider cfg \<noteq> None \<Longrightarrow> MeterProvider cfg \<noteq> None \<Longrightarrow> Propagators cfg \<noteq> None \<Longrightarrow>
   \<exists>c. apply_opts opts cfg = Some c \<and> TracerProvider c \<noteq> None \<and> MeterProvider c \<noteq> None
        \<and> Propagators c \<noteq> None"
proof (induction opts arbitrary: cfg)
  case Nil
  then show ?case by simp
next
  case (Cons opt opts)
  obtain c1 where c1: "apply_opt opt cfg = Some c1"
    using apply_opt_total by blast
  from apply_opt_keeps_providers[OF c1 Cons.prems] Cons.IH[of c1] c1
  show ?case by simp
qed

lemma newConfig_total:
  "\<exists>c. newConfig g opts = Some c \<and> TracerProvider c \<noteq> None \<and> MeterProvider c \<noteq> None
        \<and> Propagators c \<noteq> None \<and> Tracer c \<noteq> None \<and> Meter c \<noteq> None"
proof -
  let ?c0 = "zero_config\<lparr>Propagators := Some (GlobalTextMapPropagator g),
                          TracerProvider := Some (GlobalTracerProvider g),
                          MeterProvider := Some (GlobalMeterProvider g)\<rparr>"
  obtain c where c: "apply_opts opts ?c0 = Some c" "TracerProvider c \<noteq> None"
      "MeterProvider c \<noteq> None" "Propagators c \<noteq> None"
    using apply_opts_total[of ?c0 opts] by auto
  then show ?thesis by (auto simp: newConfig_def Let_def)
qed




lemma Atoi_9092: "Atoi ''9092'' = Some 9092"
  by code_simp

section \<open>Slices\<close>

lemma append_slice_result:
  assumes "heap_ok h s" "append_slice g h s vs = (h', s')"
  shows "heap_ok h' s'" "slice_elems h' s' = slice_elems h s @ vs"
  using assms
  by (auto simp: append_slice_def heap_ok_def slice_elems_def Let_def nth_append split: if_splits)

lemma append_slice_frame:
  assumes "heap_ok h s" "append_slice g h s vs = (h', s')" "heap_ok h t" "out_of_reach t s"
  shows "heap_ok h' t" "slice_elems h' t = slice_elems h t" "out_of_reach t s'"
  using assms
  by (auto simp: append_slice_def heap_ok_def slice_elems_def out_of_reach_def Let_def
                 nth_append nth_list_update
           split: if_splits)

lemma out_of_reach_refl: "out_of_reach s s"
  by (simp add: out_of_reach_def)

lemma emit_fields [simp]:
  "heap (emit e s) = heap s" "events (emit e s) = events s @ [e]"
  "spans (emit e s) = spans s" "ticks (emit e s) = ticks s"
  by (simp_all add: emit_def)

lemma Now_fields:
  assumes "Now rt s = (t, s')"
  shows "t = clock rt (ticks s)" "heap s' = heap s" "events s' = events s" "spans s' = spans s"
    "ticks s' = Suc (ticks s)"
  using assms by (auto simp: Now_def)

lemma go_append_result:
  assumes "heap_ok (heap s) sl" "go_append rt sl vs s = (sl', s')"
  shows "heap_ok (heap s') sl'" "slice_elems (heap s') sl' = slice_elems (heap s) sl @ vs"
    "events s' = events s" "spans s' = spans s" "ticks s' = ticks s"
proof -
  obtain h' where a: "append_slice (growslice rt) (heap s) sl vs = (h', sl')"
    and s': "s' = s\<lparr>heap := h'\<rparr>"
    using assms(2) by (auto simp: go_append_def split: prod.splits)
  from append_slice_result[OF assms(1) a] s'
  show "heap_ok (heap s') sl'" "slice_elems (heap s') sl' = slice_elems (heap s) sl @ vs"
    "events s' = events s" "spans s' = spans s" "ticks s' = ticks s"
    by simp_all
qed

lemma go_append_frame:
  assumes "heap_ok (heap s) sl" "go_append rt sl vs s = (sl', s')" "heap_ok (heap s) t"
    "out_of_reach t sl"
  shows "heap_ok (heap s') t" "slice_elems (heap s') t = slice_elems (heap s) t"
    "out_of_reach t sl'"
proof -
  obtain h' where a: "append_slice (growslice rt) (heap s) sl vs = (h', sl')"
    and s': "s' = s\<lparr>heap := h'\<rparr>"
    using assms(2) by (auto simp: go_append_def split: prod.splits)
  from append_slice_frame[OF assms(1) a assms(3,4)] s'
  show "heap_ok (heap s') t" "slice_elems (heap s') t = slice_elems (heap s) t"
    "out_of_reach t sl'"
    by simp_all
qed

section \<open>The dispatcher\<close>

lemma slice_literal_result:
  assumes "slice_literal h vs = (h', sl)"
  shows "heap_ok h' sl" "slice_elems h' sl = vs"
  using assms by (auto simp: slice_literal_def heap_ok_def slice_elems_def)

lemma wrapper_constructed:
  assumes "newConsumerMessagesDispatcherWrapper rt c s0 = (Returned w, s)"
  shows "\<exists>m. Meter c = Some m \<and>
           receiveDuration w = Some (MkFloat64Histogram m ''messaging.client.operation.duration'' ''s'') \<and>
           consumedMessages w = Some (MkInt64Counter m ''messaging.client.consumed.messages'')"
    and "dw_cfg w = c"
    and "heap_ok (heap s) (dw_defaultAttributes w)"
    and "slice_elems (heap s) (dw_defaultAttributes w) = receive_defaults c"
    and "events s = events s0" and "spans s = spans s0" and "ticks s = ticks s0"
proof -
  obtain m where m: "Meter c = Some m"
    using assms by (auto simp: newConsumerMessagesDispatcherWrapper_def split: option.splits)
  let ?lit = "[MessagingSystem ''kafka'', attribute_String ''messaging.operation.name'' ''receive'']"
  obtain h1 da1 where l: "slice_literal (heap s0) ?lit = (h1, da1)"
    by (cases "slice_literal (heap s0) ?lit")
  let ?s1 = "s0\<lparr>heap := h1\<rparr>"
  let ?r2 = "if ServerAddress c \<noteq> []
             then go_append rt da1 [attribute_String ''server.address'' (ServerAddress c)] ?s1
             else (da1, ?s1)"
  obtain da2 s2 where a2: "?r2 = (da2, s2)" by (cases ?r2)
  let ?r3 = "if ServerPort c \<noteq> 0
             then go_append rt da2 [attribute_Int ''server.port'' (ServerPort c)] s2
             else (da2, s2)"
  obtain da3 s3 where a3: "?r3 = (da3, s3)" by (cases ?r3)
  let ?r4 = "if ConsumerGroupID c \<noteq> []
             then go_append rt da3 [attribute_String ''messaging.consumer.group.name'' (ConsumerGroupID c)] s3
             else (da3, s3)"
  obtain da4 s4 where a4: "?r4 = (da4, s4)" by (cases ?r4)
  have w: "w = \<lparr>receiveDuration = Some (MkFloat64Histogram m ''messaging.client.operation.duration'' ''s''),
               consumedMessages = Some (MkInt64Counter m ''messaging.client.consumed.messages''),
               dw_defaultAttributes = da4, dw_cfg = c\<rparr>" and s: "s = s4"
    using assms m l a2 a3 a4
    by (simp_all add: newConsumerMessagesDispatcherWrapper_def Let_def)
  have k1: "heap_ok (heap ?s1) da1" "slice_elems (heap ?s1) da1 = ?lit"
    using slice_literal_result[OF l] by simp_all
  have k2: "heap_ok (heap s2) da2 \<and>
            slice_elems (heap s2) da2 =
              ?lit @ (if ServerAddress c \<noteq> [] then [(''server.address'', STRING (ServerAddress c))] else []) \<and>
            events s2 = events s0 \<and> spans s2 = spans s0 \<and> ticks s2 = ticks s0"
  proof (cases "ServerAddress c \<noteq> []")
    case True
    then have "go_append rt da1 [attribute_String ''server.address'' (ServerAddress c)] ?s1 = (da2, s2)"
      using a2 by simp
    from go_append_result[OF k1(1) this] k1(2) True show ?thesis
      by (simp add: attribute_String_def)
  next
    case False
    then show ?thesis using a2 k1 by auto
  qed
  have k3: "heap_ok (heap s3) da3 \<and>
            slice_elems (heap s3) da3 =
              ?lit @ (if ServerAddress c \<noteq> [] then [(''server.address'', STRING (ServerAddress c))] else [])
                   @ (if ServerPort c \<noteq> 0 then [(''server.port'', INT64 (ServerPort c))] else []) \<and>
            events s3 = events s0 \<and> spans s3 = spans s0 \<and> ticks s3 = ticks s0"
  proof (cases "ServerPort c \<noteq> 0")
    case True
    then have "go_append rt da2 [attribute_Int ''server.port'' (ServerPort c)] s2 = (da3, s3)"
      using a3 by simp
    from go_append_result[OF conjunct1[OF k2] this] k2 True show ?thesis
      by (simp add: attribute_Int_def)
  next
    case False
    then show ?thesis using a3 k2 by auto
  qed
  have k4: "heap_ok (heap s4) da4 \<and>
            slice_elems (heap s4) da4 = receive_defaults c \<and>
            events s4 = events s0 \<and> spans s4 = spans s0 \<and> ticks s4 = ticks s0"
  proof (cases "ConsumerGroupID c \<noteq> []")
    case True
    then have "go_append rt da3 [attribute_String ''messaging.consumer.group.name'' (ConsumerGroupID c)] s3 = (da4, s4)"
      using a4 by simp
    from go_append_result[OF conjunct1[OF k3] this] k3 True show ?thesis
      by (simp add: attribute_String_def receive_defaults_def MessagingSystem_def)
  next
    case False
    then show ?thesis using a4 k3
      by (auto simp: attribute_String_def receive_defaults_def MessagingSystem_def)
  qed
  show "\<exists>m. Meter c = Some m \<and>
           receiveDuration w = Some (MkFloat64Histogram m ''messaging.client.operation.duration'' ''s'') \<and>
           consumedMessages w = Some (MkInt64Counter m ''messaging.client.consumed.messages'')"
    using m w by simp
  show "dw_cfg w = c" using w by simp
  show "heap_ok (heap s) (dw_defaultAttributes w)" using k4 w s by simp
  show "slice_elems (heap s) (dw_defaultAttributes w) = receive_defaults c" using k4 w s by simp
  show "events s = events s0" "spans s = spans s0" "ticks s = ticks s0" using k4 s by simp_all
qed

lemma Run_iteration_frame:
  assumes ok: "heap_ok (heap s) (dw_defaultAttributes w)"
    and t: "heap_ok (heap s) t" "out_of_reach t (dw_defaultAttributes w)"
    and run: "Run_iteration rt w m demand s = (r, s')"
  shows "heap_ok (heap s') t" "slice_elems (heap s') t = slice_elems (heap s) t"
proof -
  obtain start s1 where n1: "Now rt s = (start, s1)" by (cases "Now rt s")
  note f1 = Now_fields[OF n1]
  have "heap_ok (heap s') t \<and> slice_elems (heap s') t = slice_elems (heap s) t"
  proof (cases "Propagators (dw_cfg w)")
    case None
    with run n1 f1 t show ?thesis by (simp add: Run_iteration_def)
  next
    case (Some pr)
    let ?vs1 = "[MessagingDestinationName (Topic m),
                 attribute_String ''messaging.destination.partition.id''
                   (FormatInt (sint (Partition m)))]"
    let ?vs2 = "[attribute_String ''messaging.message.id'' (FormatInt (sint (Offset m)))]"
    obtain attrs s2 where a1: "go_append rt (dw_defaultAttributes w) ?vs1 s1 = (attrs, s2)"
      by (cases "go_append rt (dw_defaultAttributes w) ?vs1 s1")
    obtain spanAttrs s3 where a2: "go_append rt attrs ?vs2 s2 = (spanAttrs, s3)"
      by (cases "go_append rt attrs ?vs2 s2")
    have ok1: "heap_ok (heap s1) (dw_defaultAttributes w)" and t1: "heap_ok (heap s1) t"
      using ok t f1 by simp_all
    note r1 = go_append_result[OF ok1 a1]
    note fr1 = go_append_frame[OF ok1 a1 t1 t(2)]
    note fr2 = go_append_frame[OF r1(1) a2 fr1(1) fr1(3)]
    have hs': "heap s' = heap s3"
      using run n1 Some a1 a2
      by (auto simp: Run_iteration_def Let_def Now_def split: option.splits if_splits prod.splits)
    show ?thesis using fr1 fr2 hs' f1 by simp
  qed
  then show "heap_ok (heap s') t" "slice_elems (heap s') t = slice_elems (heap s) t"
    by simp_all
qed

lemma Run_iteration_events:
  assumes ok: "heap_ok (heap s) (dw_defaultAttributes w)"
    and w: "Propagators (dw_cfg w) = Some pr" "Tracer (dw_cfg w) = Some tr"
      "receiveDuration w = Some rd" "consumedMessages w = Some cm"
  shows "\<exists>s'. Run_iteration rt w m demand s =
                 ((if demand = 0 then Blocked else Returned (demand - 1)), s') \<and>
           events s' = events s @
             (if demand = 0
              then [receive_start tr pr (slice_elems (heap s) (dw_defaultAttributes w)) (spans s) m]
              else receive_events rt tr pr rd cm
                     (slice_elems (heap s) (dw_defaultAttributes w)) (spans s) (ticks s) m) \<and>
           spans s' = Suc (spans s) \<and>
           ticks s' = (if demand = 0 then Suc (ticks s) else ticks s + 2)"
proof -
  obtain start s1 where n1: "Now rt s = (start, s1)" by (cases "Now rt s")
  note f1 = Now_fields[OF n1]
  let ?vs1 = "[MessagingDestinationName (Topic m),
               attribute_String ''messaging.destination.partition.id''
                 (FormatInt (sint (Partition m)))]"
  let ?vs2 = "[attribute_String ''messaging.message.id'' (FormatInt (sint (Offset m)))]"
  obtain attrs s2 where a1: "go_append rt (dw_defaultAttributes w) ?vs1 s1 = (attrs, s2)"
    by (cases "go_append rt (dw_defaultAttributes w) ?vs1 s1")
  obtain spanAttrs s3 where a2: "go_append rt attrs ?vs2 s2 = (spanAttrs, s3)"
    by (cases "go_append rt attrs ?vs2 s2")
  have ok1: "heap_ok (heap s1) (dw_defaultAttributes w)" using ok f1 by simp
  note r1 = go_append_result[OF ok1 a1]
  note r2 = go_append_result[OF r1(1) a2]
  have fr: "slice_elems (heap s3) attrs = slice_elems (heap s2) attrs"
    using go_append_frame(2)[OF r1(1) a2 r1(1) out_of_reach_refl] by simp
  let ?D = "slice_elems (heap s) (dw_defaultAttributes w)"
  have A: "slice_elems (heap s3) attrs = receive_attributes ?D m"
    using fr r1(2) f1
    by (simp add: receive_attributes_def with_destination_def MessagingDestinationName_def
                  attribute_String_def)
  have B: "slice_elems (heap s3) spanAttrs = receive_attributes ?D m @ [message_id m]"
    using r2(2) fr A by (simp add: attribute_String_def message_id_def)
  have C: "events s3 = events s" "spans s3 = spans s" "ticks s3 = Suc (ticks s)"
    using r1 r2 f1 by simp_all
  show ?thesis
    using n1 a1 a2 w A B C f1(1)
    by (simp add: Run_iteration_def Let_def Now_def receive_events_def receive_start_def)
qed

lemma Run_loop_events:
  assumes ok: "heap_ok (heap s) (dw_defaultAttributes w)"
    and w: "Propagators (dw_cfg w) = Some pr" "Tracer (dw_cfg w) = Some tr"
      "receiveDuration w = Some rd" "consumedMessages w = Some cm"
  shows "\<exists>s'. Run_loop rt w msgs demand s =
                 ((if length msgs \<le> demand then Returned () else Blocked), s') \<and>
           events s' = events s @
             receive_trace rt tr pr rd cm (slice_elems (heap s) (dw_defaultAttributes w))
               (spans s) (ticks s) (take demand msgs) @
             (if length msgs \<le> demand then []
              else [receive_start tr pr (slice_elems (heap s) (dw_defaultAttributes w))
                      (spans s + demand) (msgs ! demand)])"
  using ok
proof (induction msgs arbitrary: demand s)
  case Nil
  then show ?case by simp
next
  case (Cons m ms)
  let ?D = "slice_elems (heap s) (dw_defaultAttributes w)"
  obtain s1 where it: "Run_iteration rt w m demand s =
                 ((if demand = 0 then Blocked else Returned (demand - 1)), s1)"
    and ev: "events s1 = events s @
             (if demand = 0 then [receive_start tr pr ?D (spans s) m]
              else receive_events rt tr pr rd cm ?D (spans s) (ticks s) m)"
    and sp: "spans s1 = Suc (spans s)"
    and tk: "ticks s1 = (if demand = 0 then Suc (ticks s) else ticks s + 2)"
    using Run_iteration_events[OF Cons.prems w, of rt m demand] by blast
  show ?case
  proof (cases demand)
    case 0
    then show ?thesis using it ev by simp
  next
    case (Suc d)
    note fr = Run_iteration_frame[OF Cons.prems Cons.prems out_of_reach_refl it]
    obtain s' where l: "Run_loop rt w ms d s1 =
                 ((if length ms \<le> d then Returned () else Blocked), s')"
      and e: "events s' = events s1 @
             receive_trace rt tr pr rd cm (slice_elems (heap s1) (dw_defaultAttributes w))
               (spans s1) (ticks s1) (take d ms) @
             (if length ms \<le> d then []
              else [receive_start tr pr (slice_elems (heap s1) (dw_defaultAttributes w))
                      (spans s1 + d) (ms ! d)])"
      using Cons.IH[OF fr(1), of d] by blast
    show ?thesis
      using Suc it l e ev sp tk fr(2) by simp
  qed
qed

lemma delivered_append: "delivered (xs @ ys) = delivered xs @ delivered ys"
  by (induction xs rule: delivered.induct) simp_all

lemma delivered_receive_trace: "delivered (receive_trace rt tr pr rd cm D sp tk ms) = ms"
  by (induction ms arbitrary: sp tk) (simp_all add: receive_events_def receive_start_def)

lemma receive_trace_append:
  "receive_trace rt tr pr rd cm D sp tk (xs @ ys) =
     receive_trace rt tr pr rd cm D sp tk xs @
     receive_trace rt tr pr rd cm D (sp + length xs) (tk + 2 * length xs) ys"
  by (induction xs arbitrary: sp tk) simp_all

lemma length_receive_trace: "length (receive_trace rt tr pr rd cm D sp tk ms) = 5 * length ms"
  by (induction ms arbitrary: sp tk) (simp_all add: receive_events_def)

lemma Closed_not_in_receive_trace: "Closed \<notin> set (receive_trace rt tr pr rd cm D sp tk ms)"
  by (induction ms arbitrary: sp tk) (simp_all add: receive_events_def receive_start_def)

lemma receive_trace_block:
  assumes "i < length ms"
  shows "take 5 (drop (5 * i) (receive_trace rt tr pr rd cm D sp tk ms @ rest)) =
           receive_events rt tr pr rd cm D (sp + i) (tk + 2 * i) (ms ! i)"
proof -
  have ms: "ms = take i ms @ (ms ! i) # drop (Suc i) ms"
    using assms by (simp add: id_take_nth_drop)
  have l: "length (receive_trace rt tr pr rd cm D sp tk (take i ms)) = 5 * i"
    using assms by (simp add: length_receive_trace)
  have "receive_trace rt tr pr rd cm D sp tk ms =
          receive_trace rt tr pr rd cm D sp tk (take i ms) @
          receive_events rt tr pr rd cm D (sp + i) (tk + 2 * i) (ms ! i) @
          receive_trace rt tr pr rd cm D (Suc (sp + i)) (tk + 2 * i + 2) (drop (Suc i) ms)"
    using assms by (subst ms, subst receive_trace_append) simp
  then show ?thesis
    using l by (simp add: receive_events_def)
qed

lemma histogram_records_append:
  "histogram_records (xs @ ys) = histogram_records xs @ histogram_records ys"
  by (induction xs rule: histogram_records.induct) simp_all

lemma counter_additions_append:
  "counter_additions (xs @ ys) = counter_additions xs @ counter_additions ys"
  by (induction xs rule: counter_additions.induct) simp_all

lemma span_starts_append: "span_starts (xs @ ys) = span_starts xs @ span_starts ys"
  by (induction xs rule: span_starts.induct) simp_all

lemma histogram_records_receive_trace:
  "histogram_records (receive_trace rt tr pr rd cm D sp tk ms) =
     map (\<lambda>m. (rd, receive_attributes D m)) ms"
  by (induction ms arbitrary: sp tk) (simp_all add: receive_events_def receive_start_def)

lemma counter_additions_receive_trace:
  "counter_additions (receive_trace rt tr pr rd cm D sp tk ms) =
     map (\<lambda>m. (cm, 1, receive_attributes D m)) ms"
  by (induction ms arbitrary: sp tk) (simp_all add: receive_events_def receive_start_def)

lemma span_starts_receive_trace:
  "span_starts (receive_trace rt tr pr rd cm D sp tk ms) =
     map (\<lambda>m. (pr m, Topic m @ '' receive'',
                [WithAttributes (receive_attributes D m @ [message_id m]),
                 WithLinks [LinkFromContext (pr m)]])) ms"
  by (induction ms arbitrary: sp tk) (simp_all add: receive_events_def receive_start_def)

lemma Run_events:
  assumes con: "newConsumerMessagesDispatcherWrapper rt c s0 = (Returned w, s)"
    and c: "Propagators c = Some pr" "Tracer c = Some tr" "Meter c = Some m"
  shows "\<exists>s'. Run rt w msgs demand s =
                 ((if length msgs \<le> demand then Returned () else Blocked), s') \<and>
           new_events s s' =
             receive_trace rt tr pr
               (MkFloat64Histogram m ''messaging.client.operation.duration'' ''s'')
               (MkInt64Counter m ''messaging.client.consumed.messages'')
               (receive_defaults c) (spans s) (ticks s) (take demand msgs) @
             (if length msgs \<le> demand then [Closed]
              else [receive_start tr pr (receive_defaults c) (spans s + demand) (msgs ! demand)])"
proof -
  note k = wrapper_constructed[OF con]
  let ?rd = "MkFloat64Histogram m ''messaging.client.operation.duration'' ''s''"
  let ?cm = "MkInt64Counter m ''messaging.client.consumed.messages''"
  have w: "Propagators (dw_cfg w) = Some pr" "Tracer (dw_cfg w) = Some tr"
    "receiveDuration w = Some ?rd" "consumedMessages w = Some ?cm"
    using k(1,2) c by auto
  from Run_loop_events[OF k(3) w, of rt msgs demand]
  obtain s1 where l: "Run_loop rt w msgs demand s =
                 ((if length msgs \<le> demand then Returned () else Blocked), s1)"
    and e: "events s1 = events s @
             receive_trace rt tr pr ?rd ?cm (slice_elems (heap s) (dw_defaultAttributes w))
               (spans s) (ticks s) (take demand msgs) @
             (if length msgs \<le> demand then []
              else [receive_start tr pr (slice_elems (heap s) (dw_defaultAttributes w))
                      (spans s + demand) (msgs ! demand)])"
    by blast
  show ?thesis
    using l e k(4) by (simp add: Run_def new_events_def)
qed

lemma Run_loop_frame:
  assumes "heap_ok (heap s) (dw_defaultAttributes w)"
    and "heap_ok (heap s) t" "out_of_reach t (dw_defaultAttributes w)"
    and "Run_loop rt w msgs demand s = (r, s')"
  shows "heap_ok (heap s') t \<and> slice_elems (heap s') t = slice_elems (heap s) t"
  using assms
proof (induction msgs arbitrary: demand s)
  case Nil
  then show ?case by simp
next
  case (Cons m ms)
  obtain r1 s1 where it: "Run_iteration rt w m demand s = (r1, s1)"
    by (cases "Run_iteration rt w m demand s")
  note own = Run_iteration_frame[OF Cons.prems(1) Cons.prems(1) out_of_reach_refl it]
  note fr = Run_iteration_frame[OF Cons.prems(1) Cons.prems(2) Cons.prems(3) it]
  show ?case
  proof (cases r1)
    case (Returned d)
    then have "Run_loop rt w ms d s1 = (r, s')"
      using Cons.prems(4) it by simp
    from Cons.IH[OF own(1) fr(1) Cons.prems(3) this] fr(2) show ?thesis by simp
  next
    case Panicked
    then show ?thesis using Cons.prems(4) it fr by auto
  next
    case Blocked
    then show ?thesis using Cons.prems(4) it fr by auto
  qed
qed

lemma Run_frame:
  assumes "heap_ok (heap s) (dw_defaultAttributes w)"
    and "heap_ok (heap s) t" "out_of_reach t (dw_defaultAttributes w)"
    and "Run rt w msgs demand s = (r, s')"
  shows "heap_ok (heap s') t \<and> slice_elems (heap s') t = slice_elems (heap s) t"
proof -
  obtain r1 s1 where l: "Run_loop rt w msgs demand s = (r1, s1)"
    by (cases "Run_loop rt w msgs demand s")
  have "heap s' = heap s1"
    using assms(4) l by (cases r1) (auto simp: Run_def)
  with Run_loop_frame[OF assms(1-3) l] show ?thesis by simp
qed

section \<open>The concrete setting, evaluated\<close>

lemma ex_config_resolved: "newConfig ex_globals ex_options = Some ex_config"
  by (simp add: newConfig_def ex_globals_def ex_options_def ex_config_def zero_config_def
                Atoi_9092 ex_tracer_def ex_meter_def)

lemma ex_wrapper_constructed:
  "newConsumerMessagesDispatcherWrapper ex_runtime ex_config ex_world =
     (Returned ex_wrapper, ex_world1)"
  by (simp add: ex_world1_def prod_eq_iff newConsumerMessagesDispatcherWrapper_def ex_config_def
        ex_world_def ex_wrapper_def ex_runtime_def slice_literal_def go_append_def
        append_slice_def Let_def)

lemma ex_config_fields:
  "Propagators ex_config = Some ex_propagator" "Tracer ex_config = Some ex_tracer"
  "Meter ex_config = Some ex_meter"
  by (simp_all add: ex_config_def)

lemma message_id_not_in_receive_attributes:
  "''messaging.message.id'' \<notin> fst ` set (receive_attributes (receive_defaults c) msg)"
  by (auto simp: receive_attributes_def with_destination_def receive_defaults_def)

section \<open>The process instrumenter\<close>

lemma go_append_log:
  assumes "go_append rt sl vs s = (sl', s')"
  shows "events s' = events s" "spans s' = spans s" "ticks s' = ticks s"
  using assms by (auto simp: go_append_def split: prod.splits)

lemma instrumenter_constructed:
  assumes "NewMessageProcessInstrumenter rt g opts s0 = (Returned inst, s)"
  shows "\<exists>c m. newConfig g opts = Some c \<and> pi_cfg inst = c \<and> Meter c = Some m \<and>
           metricProcessDuration inst =
             Some (MkFloat64Histogram m ''messaging.client.process.duration'' ''s'') \<and>
           slice_elems (heap s) (pi_defaultAttributes inst) = process_defaults c"
    and "heap_ok (heap s) (pi_defaultAttributes inst)"
    and "events s = events s0" and "spans s = spans s0" and "ticks s = ticks s0"
proof -
  obtain c where c: "newConfig g opts = Some c"
    using assms by (auto simp: NewMessageProcessInstrumenter_def split: option.splits)
  obtain m where m: "Meter c = Some m"
    using assms c by (auto simp: NewMessageProcessInstrumenter_def split: option.splits)
  let ?lit = "[MessagingSystem ''kafka'', attribute_String ''messaging.operation.name'' ''process'']"
  obtain h1 da1 where l: "slice_literal (heap s0) ?lit = (h1, da1)"
    by (cases "slice_literal (heap s0) ?lit")
  let ?s1 = "s0\<lparr>heap := h1\<rparr>"
  let ?r2 = "if ServerAddress c \<noteq> []
             then go_append rt da1 [attribute_String ''server.address'' (ServerAddress c)] ?s1
             else (da1, ?s1)"
  obtain da2 s2 where a2: "?r2 = (da2, s2)" by (cases ?r2)
  let ?r3 = "if ServerPort c \<noteq> 0
             then go_append rt da2 [attribute_Int ''server.port'' (ServerPort c)] s2
             else (da2, s2)"
  obtain da3 s3 where a3: "?r3 = (da3, s3)" by (cases ?r3)
  have i: "inst = \<lparr>pi_cfg = c,
                   metricProcessDuration =
                     Some (MkFloat64Histogram m ''messaging.client.process.duration'' ''s''),
                   pi_defaultAttributes = da3\<rparr>" and s: "s = s3"
    using assms c m l a2 a3
    by (simp_all add: NewMessageProcessInstrumenter_def Let_def)
  have k1: "heap_ok (heap ?s1) da1" "slice_elems (heap ?s1) da1 = ?lit"
    using slice_literal_result[OF l] by simp_all
  have k2: "heap_ok (heap s2) da2 \<and>
            slice_elems (heap s2) da2 =
              ?lit @ (if ServerAddress c \<noteq> [] then [(''server.address'', STRING (ServerAddress c))] else []) \<and>
            events s2 = events s0 \<and> spans s2 = spans s0 \<and> ticks s2 = ticks s0"
  proof (cases "ServerAddress c \<noteq> []")
    case True
    then have "go_append rt da1 [attribute_String ''server.address'' (ServerAddress c)] ?s1 = (da2, s2)"
      using a2 by simp
    from go_append_result[OF k1(1) this] k1(2) True show ?thesis
      by (simp add: attribute_String_def)
  next
    case False
    then show ?thesis using a2 k1 by auto
  qed
  have k3: "heap_ok (heap s3) da3 \<and>
            slice_elems (heap s3) da3 = process_defaults c \<and>
            events s3 = events s0 \<and> spans s3 = spans s0 \<and> ticks s3 = ticks s0"
  proof (cases "ServerPort c \<noteq> 0")
    case True
    then have "go_append rt da2 [attribute_Int ''server.port'' (ServerPort c)] s2 = (da3, s3)"
      using a3 by simp
    from go_append_result[OF conjunct1[OF k2] this] k2 True show ?thesis
      by (simp add: attribute_Int_def attribute_String_def process_defaults_def MessagingSystem_def)
  next
    case False
    then show ?thesis using a3 k2
      by (auto simp: attribute_String_def process_defaults_def MessagingSystem_def)
  qed
  show "\<exists>c m. newConfig g opts = Some c \<and> pi_cfg inst = c \<and> Meter c = Some m \<and>
           metricProcessDuration inst =
             Some (MkFloat64Histogram m ''messaging.client.process.duration'' ''s'') \<and>
           slice_elems (heap s) (pi_defaultAttributes inst) = process_defaults c"
    using c m i k3 s by simp
  show "heap_ok (heap s) (pi_defaultAttributes inst)" using k3 i s by simp
  show "events s = events s0" "spans s = spans s0" "ticks s = ticks s0" using k3 s by simp_all
qed

lemma NewProcessOperation_result:
  assumes ok: "heap_ok (heap s) (pi_defaultAttributes inst)"
    and c: "Propagators (pi_cfg inst) = Some pr" "Tracer (pi_cfg inst) = Some tr"
  shows "\<exists>s'. NewProcessOperation rt inst msg s =
                 (Returned \<lparr>instrumenter = zero_MessageProcessInstrumenter,
                            err = None,
                            start = clock rt (ticks s),
                            span = Some (spans s),
                            topic = Topic msg,
                            partition = FormatInt (sint (Partition msg))\<rparr>, s') \<and>
           events s' = events s @
             [SpanStarted (spans s) tr (pr msg) (Topic msg @ '' process'')
                [WithAttributes
                   (slice_elems (heap s) (pi_defaultAttributes inst) @
                      [(''messaging.destination.name'', STRING (Topic msg)),
                       message_id msg,
                       (''messaging.destination.partition.id'',
                        STRING (FormatInt (sint (Partition msg))))]),
                 WithSpanKind SpanKindConsumer,
                 WithLinks [LinkFromContext (pr msg)]]]"
proof -
  let ?vs = "[MessagingDestinationName (Topic msg),
              attribute_String ''messaging.message.id'' (FormatInt (sint (Offset msg))),
              attribute_String ''messaging.destination.partition.id''
                (FormatInt (sint (Partition msg)))]"
  obtain attrs s1 where a: "go_append rt (pi_defaultAttributes inst) ?vs s = (attrs, s1)"
    by (cases "go_append rt (pi_defaultAttributes inst) ?vs s")
  note r = go_append_result[OF ok a]
  show ?thesis
    using a c r
    by (simp add: NewProcessOperation_def Let_def Now_def MessagingDestinationName_def
                  attribute_String_def message_id_def)
qed

lemma NewProcessOperation_frame:
  assumes ok: "heap_ok (heap s) (pi_defaultAttributes inst)"
    and t: "heap_ok (heap s) t" "out_of_reach t (pi_defaultAttributes inst)"
    and run: "NewProcessOperation rt inst msg s = (r, s')"
  shows "heap_ok (heap s') t \<and> slice_elems (heap s') t = slice_elems (heap s) t"
proof (cases "Propagators (pi_cfg inst)")
  case None
  with run t show ?thesis by (simp add: NewProcessOperation_def)
next
  case (Some pr)
  let ?vs = "[MessagingDestinationName (Topic msg),
              attribute_String ''messaging.message.id'' (FormatInt (sint (Offset msg))),
              attribute_String ''messaging.destination.partition.id''
                (FormatInt (sint (Partition msg)))]"
  obtain attrs s1 where a: "go_append rt (pi_defaultAttributes inst) ?vs s = (attrs, s1)"
    by (cases "go_append rt (pi_defaultAttributes inst) ?vs s")
  note fr = go_append_frame[OF ok a t]
  have "heap s' = heap s1"
    using run Some a
    by (auto simp: NewProcessOperation_def Let_def Now_def split: option.splits)
  with fr show ?thesis by simp
qed

lemma Stop_frame:
  assumes ok: "heap_ok (heap s) (pi_defaultAttributes (instrumenter op))"
    and t: "heap_ok (heap s) t" "out_of_reach t (pi_defaultAttributes (instrumenter op))"
    and run: "Stop rt op s = (r, s')"
  shows "heap_ok (heap s') t \<and> slice_elems (heap s') t = slice_elems (heap s) t"
proof (cases "span op")
  case None
  with run t show ?thesis by (simp add: Stop_def)
next
  case (Some sp)
  let ?s1 = "emit (SpanEnded sp) s"
  let ?vs = "[MessagingDestinationName (topic op),
              attribute_String ''messaging.destination.partition.id'' (partition op)]"
  obtain attrs s2 where a1: "go_append rt (pi_defaultAttributes (instrumenter op)) ?vs ?s1 = (attrs, s2)"
    by (cases "go_append rt (pi_defaultAttributes (instrumenter op)) ?vs ?s1")
  let ?r3 = "case err op of
               Some etext \<Rightarrow> go_append rt attrs [attribute_String ''error.type'' etext] s2
             | None \<Rightarrow> (attrs, s2)"
  obtain attrs' s3 where a2: "?r3 = (attrs', s3)" by (cases ?r3)
  have ok1: "heap_ok (heap ?s1) (pi_defaultAttributes (instrumenter op))"
    and t1: "heap_ok (heap ?s1) t"
    using ok t by simp_all
  note r1 = go_append_result[OF ok1 a1]
  note fr1 = go_append_frame[OF ok1 a1 t1 t(2)]
  have fr2: "heap_ok (heap s3) t \<and> slice_elems (heap s3) t = slice_elems (heap s2) t"
  proof (cases "err op")
    case None
    then show ?thesis using a2 fr1 by simp
  next
    case (Some et)
    then have "go_append rt attrs [attribute_String ''error.type'' et] s2 = (attrs', s3)"
      using a2 by simp
    from go_append_frame[OF r1(1) this fr1(1) fr1(3)] show ?thesis by simp
  qed
  have "heap s' = heap s3"
    using run Some a1 a2
    by (auto simp: Stop_def Let_def Now_def split: option.splits)
  with fr1 fr2 show ?thesis by simp
qed

lemma Stop_without_histogram:
  assumes "span op = Some sp" "metricProcessDuration (instrumenter op) = None"
  shows "\<exists>s'. Stop rt op s = (Panicked, s') \<and> events s' = events s @ [SpanEnded sp]"
proof -
  let ?s1 = "emit (SpanEnded sp) s"
  let ?vs = "[MessagingDestinationName (topic op),
              attribute_String ''messaging.destination.partition.id'' (partition op)]"
  obtain attrs s2 where a1: "go_append rt (pi_defaultAttributes (instrumenter op)) ?vs ?s1 = (attrs, s2)"
    by (cases "go_append rt (pi_defaultAttributes (instrumenter op)) ?vs ?s1")
  let ?r3 = "case err op of
               Some etext \<Rightarrow> go_append rt attrs [attribute_String ''error.type'' etext] s2
             | None \<Rightarrow> (attrs, s2)"
  obtain attrs' s3 where a2: "?r3 = (attrs', s3)" by (cases ?r3)
  have "events s3 = events s2"
    using a2 go_append_log(1) by (cases "err op") auto
  then have "events s3 = events s @ [SpanEnded sp]"
    using go_append_log(1)[OF a1] by simp
  then show ?thesis
    using assms a1 a2 by (simp add: Stop_def Let_def Now_def)
qed

lemma Stop_with_histogram:
  assumes ok: "heap_ok (heap s) (pi_defaultAttributes (instrumenter op))"
    and op: "span op = Some sp" "metricProcessDuration (instrumenter op) = Some h"
  shows "\<exists>s'. Stop rt op s = (Returned (), s') \<and>
           events s' = events s @
             [SpanEnded sp,
              Recorded h (clock rt (ticks s) - start op)
                (with_destination (slice_elems (heap s) (pi_defaultAttributes (instrumenter op)))
                   (topic op) (partition op) @
                 (case err op of None \<Rightarrow> [] | Some etext \<Rightarrow> [(''error.type'', STRING etext)]))]"
proof -
  let ?s1 = "emit (SpanEnded sp) s"
  let ?vs = "[MessagingDestinationName (topic op),
              attribute_String ''messaging.destination.partition.id'' (partition op)]"
  obtain attrs s2 where a1: "go_append rt (pi_defaultAttributes (instrumenter op)) ?vs ?s1 = (attrs, s2)"
    by (cases "go_append rt (pi_defaultAttributes (instrumenter op)) ?vs ?s1")
  let ?r3 = "case err op of
               Some etext \<Rightarrow> go_append rt attrs [attribute_String ''error.type'' etext] s2
             | None \<Rightarrow> (attrs, s2)"
  obtain attrs' s3 where a2: "?r3 = (attrs', s3)" by (cases ?r3)
  have ok1: "heap_ok (heap ?s1) (pi_defaultAttributes (instrumenter op))"
    using ok by simp
  note r1 = go_append_result[OF ok1 a1]
  have r2: "slice_elems (heap s3) attrs' =
              slice_elems (heap s2) attrs @
              (case err op of None \<Rightarrow> [] | Some etext \<Rightarrow> [(''error.type'', STRING etext)]) \<and>
            events s3 = events s2 \<and> ticks s3 = ticks s2"
  proof (cases "err op")
    case None
    then show ?thesis using a2 by simp
  next
    case (Some et)
    then have "go_append rt attrs [attribute_String ''error.type'' et] s2 = (attrs', s3)"
      using a2 by simp
    from go_append_result[OF r1(1) this] Some show ?thesis
      by (simp add: attribute_String_def)
  qed
  show ?thesis
    using op a1 a2 r1 r2
    by (simp add: Stop_def Let_def Now_def with_destination_def MessagingDestinationName_def
                  attribute_String_def)
qed

lemma ex_instrumenter_constructed:
  "NewMessageProcessInstrumenter ex_runtime ex_globals ex_options ex_world =
     (Returned ex_instrumenter, ex_world2)"
  by (simp add: ex_world2_def prod_eq_iff NewMessageProcessInstrumenter_def ex_config_resolved
        ex_config_def ex_world_def ex_instrumenter_def ex_runtime_def slice_literal_def
        go_append_def append_slice_def Let_def)

lemma FormatInt_3: "FormatInt (sint (3 :: 32 word)) = ''3''" "FormatInt 3 = ''3''"
  by code_simp+

lemma FormatInt_42: "FormatInt (sint (42 :: 64 word)) = ''42''" "FormatInt 42 = ''42''"
  by code_simp+

lemma FormatInt_43: "FormatInt (sint (43 :: 64 word)) = ''43''" "FormatInt 43 = ''43''"
  by code_simp+

lemma ex_world2_log: "spans ex_world2 = 0" "ticks ex_world2 = 0" "events ex_world2 = []"
  using instrumenter_constructed(3,4,5)[OF ex_instrumenter_constructed]
  by (simp_all add: ex_world_def)

lemma ex_world1_log: "spans ex_world1 = 0" "ticks ex_world1 = 0" "events ex_world1 = []"
  using wrapper_constructed(5,6,7)[OF ex_wrapper_constructed]
  by (simp_all add: ex_world_def)

lemma ex_operation_opened:
  "NewProcessOperation ex_runtime ex_instrumenter ex_msg1 ex_world2 =
     (Returned ex_operation, ex_world3)"
proof -
  have ok: "heap_ok (heap ex_world2) (pi_defaultAttributes ex_instrumenter)"
    by (rule instrumenter_constructed(2)[OF ex_instrumenter_constructed])
  have c: "Propagators (pi_cfg ex_instrumenter) = Some ex_propagator"
      "Tracer (pi_cfg ex_instrumenter) = Some ex_tracer"
    by (simp_all add: ex_instrumenter_def ex_config_def)
  from NewProcessOperation_result[OF ok c, of ex_runtime ex_msg1]
  show ?thesis
    by (auto simp: ex_world3_def ex_operation_def ex_world2_log ex_runtime_def ex_msg1_def
                   FormatInt_3)
qed

lemma NewProcessOperation_returned:
  assumes "NewProcessOperation rt inst msg s = (Returned op, s1)"
  shows "instrumenter op = zero_MessageProcessInstrumenter" "span op = Some (spans s)"
    "err op = None" "topic op = Topic msg"
    "partition op = FormatInt (sint (Partition msg))"
  using assms
  by (auto simp: NewProcessOperation_def Let_def Now_def go_append_def
           split: option.splits prod.splits)

lemma span_relations_append:
  "span_relations (xs @ ys) = span_relations xs @ span_relations ys"
  by (induction xs rule: span_relations.induct) simp_all

lemma span_relations_receive_trace:
  "span_relations (receive_trace rt tr pr rd cm D sp tk ms) =
     map (\<lambda>m. (SpanContextFromContext (pr m), links_kept [LinkFromContext (pr m)])) ms"
  by (induction ms arbitrary: sp tk)
     (simp_all add: receive_events_def receive_start_def span_parent_def)

lemma heap_ok_nil: "heap_ok h nil_slice"
  by (simp add: heap_ok_def nil_slice_def)

lemma out_of_reach_nil: "out_of_reach t nil_slice"
  by (simp add: out_of_reach_def nil_slice_def)

lemma links_kept_LinkFromContext:
  "links_kept [LinkFromContext ctx] =
     (case SpanContextFromContext ctx of None \<Rightarrow> [] | Some sc \<Rightarrow> [MkLink (Some sc)])"
  by (cases ctx) (simp_all add: LinkFromContext_def)

lemma started_spans_append: "started_spans (xs @ ys) = started_spans xs @ started_spans ys"
  by (induction xs rule: started_spans.induct) simp_all

lemma ended_spans_append: "ended_spans (xs @ ys) = ended_spans xs @ ended_spans ys"
  by (induction xs rule: ended_spans.induct) simp_all

lemma upt_shift: "[sp ..< sp + Suc n] = sp # [Suc sp ..< Suc sp + n]"
  by (subst upt_rec) simp

lemma started_spans_receive_trace:
  "started_spans (receive_trace rt tr pr rd cm D sp tk ms) = [sp ..< sp + length ms]"
proof (induction ms arbitrary: sp tk)
  case Nil
  then show ?case by simp
next
  case (Cons m ms)
  have "started_spans (receive_trace rt tr pr rd cm D sp tk (m # ms)) =
          sp # started_spans (receive_trace rt tr pr rd cm D (Suc sp) (tk + 2) ms)"
    by (simp add: receive_events_def receive_start_def)
  also have "\<dots> = sp # [Suc sp ..< Suc sp + length ms]"
    by (simp only: Cons.IH)
  also have "\<dots> = [sp ..< sp + Suc (length ms)]"
    by (rule upt_shift[symmetric])
  finally show ?case by simp
qed

lemma ended_spans_receive_trace:
  "ended_spans (receive_trace rt tr pr rd cm D sp tk ms) = [sp ..< sp + length ms]"
proof (induction ms arbitrary: sp tk)
  case Nil
  then show ?case by simp
next
  case (Cons m ms)
  have "ended_spans (receive_trace rt tr pr rd cm D sp tk (m # ms)) =
          sp # ended_spans (receive_trace rt tr pr rd cm D (Suc sp) (tk + 2) ms)"
    by (simp add: receive_events_def receive_start_def)
  also have "\<dots> = sp # [Suc sp ..< Suc sp + length ms]"
    by (simp only: Cons.IH)
  also have "\<dots> = [sp ..< sp + Suc (length ms)]"
    by (rule upt_shift[symmetric])
  finally show ?case by simp
qed

lemma go_append_in_place:
  assumes "len sl + length vs \<le> cap sl" "go_append rt sl vs s = (sl', s')"
  shows "ptr sl' = ptr sl" "length (heap s') = length (heap s)"
  using assms by (auto simp: go_append_def append_slice_def Let_def)

lemma go_append_fresh:
  assumes "cap sl < len sl + length vs" "go_append rt sl vs s = (sl', s')"
  shows "ptr sl' = length (heap s)" "length (heap s') = Suc (length (heap s))"
  using assms by (auto simp: go_append_def append_slice_def Let_def)

lemma ex_world1_value:
  "ex_world1 =
     \<lparr>heap = [(''messaging.system'', STRING ''kafka'') #
               (''messaging.operation.name'', STRING ''receive'') # [],
              [(''messaging.system'', STRING ''kafka''),
               (''messaging.operation.name'', STRING ''receive''),
               (''server.address'', STRING ''localhost''),
               (''server.port'', INT64 9092)],
              [(''messaging.system'', STRING ''kafka''),
               (''messaging.operation.name'', STRING ''receive''),
               (''server.address'', STRING ''localhost''),
               (''server.port'', INT64 9092),
               (''messaging.consumer.group.name'', STRING ''billing''),
               ([], INVALID), ([], INVALID), ([], INVALID)]],
      events = [], spans = 0, ticks = 0\<rparr>"
  by (simp add: ex_world1_def newConsumerMessagesDispatcherWrapper_def ex_config_def
        ex_world_def ex_runtime_def slice_literal_def go_append_def
        append_slice_def Let_def MessagingSystem_def attribute_String_def attribute_Int_def
        zero_KeyValue_def ex_meter_def numeral_3_eq_3)


section \<open>The configuration options\<close>

text \<open>
  C10. Passing \<open>nil\<close> to \<open>WithTracerProvider\<close> or to \<open>WithPropagators\<close> leaves the
  configuration as it is: wherever such an option stands in the list of options, the
  resolved configuration is the one obtained without it, and the provider and the
  propagator of the resolved configuration are never \<open>nil\<close>.
\<close>

theorem nil_option_is_ignored:
  "newConfig g (opts1 @ WithTracerProvider None # opts2) = newConfig g (opts1 @ opts2) \<and>
   newConfig g (opts1 @ WithPropagators None # opts2) = newConfig g (opts1 @ opts2) \<and>
   apply_opt (WithTracerProvider None) cfg = Some cfg \<and>
   apply_opt (WithPropagators None) cfg = Some cfg \<and>
   (\<exists>c. newConfig g (opts1 @ WithTracerProvider None # opts2) = Some c \<and> TracerProvider c \<noteq> None) \<and>
   (\<exists>c. newConfig g (opts1 @ WithPropagators None # opts2) = Some c \<and> Propagators c \<noteq> None)"
proof -
  have a: "newConfig g (opts1 @ WithTracerProvider None # opts2) = newConfig g (opts1 @ opts2)"
    by (simp add: newConfig_def apply_opts_append split: option.splits)
  have b: "newConfig g (opts1 @ WithPropagators None # opts2) = newConfig g (opts1 @ opts2)"
    by (simp add: newConfig_def apply_opts_append split: option.splits)
  from a b newConfig_total show ?thesis by (simp; blast)
qed



section \<open>The dispatch wrapper\<close>

text \<open>
  C3. For a wrapper built by its constructor from a configuration with a propagator and
  a tracer, run on an input of N messages: the messages delivered on the output channel
  are the first messages of the input, as many as the reader receives, in the order of
  the input and unchanged; when the reader receives at least N messages, \<open>Run\<close> returns
  and exactly the N messages of the input have been delivered, in order.
\<close>

theorem messages_forwarded_in_order:
  assumes "newConsumerMessagesDispatcherWrapper rt c s0 = (Returned w, s)"
    and "Propagators c = Some pr" and "Tracer c = Some tr"
  shows "delivered (new_events s (snd (Run rt w msgs demand s))) = take demand msgs \<and>
         (length msgs \<le> demand \<longrightarrow>
            fst (Run rt w msgs demand s) = Returned () \<and>
            delivered (new_events s (snd (Run rt w msgs demand s))) = msgs \<and>
            length (delivered (new_events s (snd (Run rt w msgs demand s)))) = length msgs)"
proof -
  obtain m where m: "Meter c = Some m"
    using wrapper_constructed(1)[OF assms(1)] by blast
  from Run_events[OF assms m, of msgs demand]
  show ?thesis
    by (auto simp: delivered_append delivered_receive_trace receive_start_def)
qed

theorem messages_forwarded_in_order_witness:
  "fst (Run ex_runtime ex_wrapper [ex_msg1, ex_msg2] 2 ex_world1) = Returned () \<and>
   delivered (new_events ex_world1 (snd (Run ex_runtime ex_wrapper [ex_msg1, ex_msg2] 2 ex_world1)))
     = [ex_msg1, ex_msg2]"
  using messages_forwarded_in_order
          [OF ex_wrapper_constructed ex_config_fields(1) ex_config_fields(2),
           of "[ex_msg1, ex_msg2]" 2]
  by simp

text \<open>
  C6. When the input closes after N messages and the reader of the output receives at
  least N messages, \<open>Run\<close> returns and the closing of the output channel is its last
  event: every message has been delivered before it, none is dropped, the spans started
  and the spans ended are the same N handles, and the log ends with the start of the
  receive span of the N-th message, the delivery of that message, the end of that same
  span, its two metric points, and then the closing; the handle of that span is used by
  no earlier event. When the reader receives fewer than N messages, \<open>Run\<close> blocks on a
  send and never closes the output channel.
\<close>

theorem output_closed_after_last_message:
  assumes "newConsumerMessagesDispatcherWrapper rt c s0 = (Returned w, s)"
    and "Propagators c = Some pr" and "Tracer c = Some tr"
  shows "(length msgs \<le> demand \<longrightarrow>
            (\<exists>s' pre. Run rt w msgs demand s = (Returned (), s') \<and>
               new_events s s' = pre @ [Closed] \<and> Closed \<notin> set pre \<and> delivered pre = msgs \<and>
               started_spans pre = [spans s ..< spans s + length msgs] \<and>
               ended_spans pre = [spans s ..< spans s + length msgs] \<and>
               (msgs \<noteq> [] \<longrightarrow>
                  (\<exists>before h d k n kvs.
                     pre = before @
                       [SpanStarted (spans s + (length msgs - 1)) tr (pr (last msgs))
                          (Topic (last msgs) @ '' receive'')
                          [WithAttributes
                             (receive_attributes (receive_defaults c) (last msgs) @
                                [message_id (last msgs)]),
                           WithLinks [LinkFromContext (pr (last msgs))]],
                        Sent (last msgs),
                        SpanEnded (spans s + (length msgs - 1)),
                        Recorded h d kvs,
                        Added k n kvs] \<and>
                     delivered before = butlast msgs \<and>
                     started_spans before = [spans s ..< spans s + (length msgs - 1)] \<and>
                     ended_spans before = [spans s ..< spans s + (length msgs - 1)])))) \<and>
         (demand < length msgs \<longrightarrow>
            (\<exists>s'. Run rt w msgs demand s = (Blocked, s') \<and>
               Closed \<notin> set (new_events s s') \<and>
               delivered (new_events s s') = take demand msgs \<and>
               ended_spans (new_events s s') = [spans s ..< spans s + demand]))"
proof -
  obtain m where m: "Meter c = Some m"
    using wrapper_constructed(1)[OF assms(1)] by blast
  let ?rd = "MkFloat64Histogram m ''messaging.client.operation.duration'' ''s''"
  let ?cm = "MkInt64Counter m ''messaging.client.consumed.messages''"
  let ?D = "receive_defaults c"
  from Run_events[OF assms m, of msgs demand]
  obtain s' where run: "Run rt w msgs demand s =
                 ((if length msgs \<le> demand then Returned () else Blocked), s')"
    and ev: "new_events s s' =
             receive_trace rt tr pr ?rd ?cm ?D (spans s) (ticks s) (take demand msgs) @
             (if length msgs \<le> demand then [Closed]
              else [receive_start tr pr ?D (spans s + demand) (msgs ! demand)])"
    by blast
  have full: "length msgs \<le> demand \<longrightarrow>
            (\<exists>s' pre. Run rt w msgs demand s = (Returned (), s') \<and>
               new_events s s' = pre @ [Closed] \<and> Closed \<notin> set pre \<and> delivered pre = msgs \<and>
               started_spans pre = [spans s ..< spans s + length msgs] \<and>
               ended_spans pre = [spans s ..< spans s + length msgs] \<and>
               (msgs \<noteq> [] \<longrightarrow>
                  (\<exists>before h d k n kvs.
                     pre = before @
                       [SpanStarted (spans s + (length msgs - 1)) tr (pr (last msgs))
                          (Topic (last msgs) @ '' receive'')
                          [WithAttributes
                             (receive_attributes (receive_defaults c) (last msgs) @
                                [message_id (last msgs)]),
                           WithLinks [LinkFromContext (pr (last msgs))]],
                        Sent (last msgs),
                        SpanEnded (spans s + (length msgs - 1)),
                        Recorded h d kvs,
                        Added k n kvs] \<and>
                     delivered before = butlast msgs \<and>
                     started_spans before = [spans s ..< spans s + (length msgs - 1)] \<and>
                     ended_spans before = [spans s ..< spans s + (length msgs - 1)])))"
  proof
    assume le: "length msgs \<le> demand"
    let ?pre = "receive_trace rt tr pr ?rd ?cm ?D (spans s) (ticks s) msgs"
    have tail: "msgs \<noteq> [] \<longrightarrow>
                  (\<exists>before h d k n kvs.
                     ?pre = before @
                       [SpanStarted (spans s + (length msgs - 1)) tr (pr (last msgs))
                          (Topic (last msgs) @ '' receive'')
                          [WithAttributes
                             (receive_attributes (receive_defaults c) (last msgs) @
                                [message_id (last msgs)]),
                           WithLinks [LinkFromContext (pr (last msgs))]],
                        Sent (last msgs),
                        SpanEnded (spans s + (length msgs - 1)),
                        Recorded h d kvs,
                        Added k n kvs] \<and>
                     delivered before = butlast msgs \<and>
                     started_spans before = [spans s ..< spans s + (length msgs - 1)] \<and>
                     ended_spans before = [spans s ..< spans s + (length msgs - 1)])"
    proof
      assume ne: "msgs \<noteq> []"
      let ?sp = "spans s + (length msgs - 1)"
      let ?tk = "ticks s + 2 * (length msgs - 1)"
      let ?before = "receive_trace rt tr pr ?rd ?cm ?D (spans s) (ticks s) (butlast msgs)"
      have "?pre = receive_trace rt tr pr ?rd ?cm ?D (spans s) (ticks s) (butlast msgs @ [last msgs])"
        using ne by simp
      also have "\<dots> = ?before @
                   [SpanStarted ?sp tr (pr (last msgs)) (Topic (last msgs) @ '' receive'')
                      [WithAttributes (receive_attributes ?D (last msgs) @ [message_id (last msgs)]),
                       WithLinks [LinkFromContext (pr (last msgs))]],
                    Sent (last msgs), SpanEnded ?sp,
                    Recorded ?rd (clock rt (Suc ?tk) - clock rt ?tk) (receive_attributes ?D (last msgs)),
                    Added ?cm 1 (receive_attributes ?D (last msgs))]"
        by (simp only: receive_trace_append) (simp add: receive_events_def receive_start_def)
      finally have "?pre = ?before @
                   [SpanStarted ?sp tr (pr (last msgs)) (Topic (last msgs) @ '' receive'')
                      [WithAttributes (receive_attributes ?D (last msgs) @ [message_id (last msgs)]),
                       WithLinks [LinkFromContext (pr (last msgs))]],
                    Sent (last msgs), SpanEnded ?sp,
                    Recorded ?rd (clock rt (Suc ?tk) - clock rt ?tk) (receive_attributes ?D (last msgs)),
                    Added ?cm 1 (receive_attributes ?D (last msgs))]" .
      moreover have "delivered ?before = butlast msgs"
        by (rule delivered_receive_trace)
      moreover have "started_spans ?before = [spans s ..< spans s + (length msgs - 1)]"
        by (simp add: started_spans_receive_trace)
      moreover have "ended_spans ?before = [spans s ..< spans s + (length msgs - 1)]"
        by (simp add: ended_spans_receive_trace)
      ultimately show "\<exists>before h d k n kvs.
                     ?pre = before @
                       [SpanStarted (spans s + (length msgs - 1)) tr (pr (last msgs))
                          (Topic (last msgs) @ '' receive'')
                          [WithAttributes
                             (receive_attributes (receive_defaults c) (last msgs) @
                                [message_id (last msgs)]),
                           WithLinks [LinkFromContext (pr (last msgs))]],
                        Sent (last msgs),
                        SpanEnded (spans s + (length msgs - 1)),
                        Recorded h d kvs,
                        Added k n kvs] \<and>
                     delivered before = butlast msgs \<and>
                     started_spans before = [spans s ..< spans s + (length msgs - 1)] \<and>
                     ended_spans before = [spans s ..< spans s + (length msgs - 1)]"
        by blast
    qed
    have "Run rt w msgs demand s = (Returned (), s')" "new_events s s' = ?pre @ [Closed]"
      using le run ev by simp_all
    moreover have "Closed \<notin> set ?pre" by (rule Closed_not_in_receive_trace)
    moreover have "delivered ?pre = msgs" by (rule delivered_receive_trace)
    moreover have "started_spans ?pre = [spans s ..< spans s + length msgs]"
      by (rule started_spans_receive_trace)
    moreover have "ended_spans ?pre = [spans s ..< spans s + length msgs]"
      by (rule ended_spans_receive_trace)
    ultimately show "\<exists>s' pre. Run rt w msgs demand s = (Returned (), s') \<and>
               new_events s s' = pre @ [Closed] \<and> Closed \<notin> set pre \<and> delivered pre = msgs \<and>
               started_spans pre = [spans s ..< spans s + length msgs] \<and>
               ended_spans pre = [spans s ..< spans s + length msgs] \<and>
               (msgs \<noteq> [] \<longrightarrow>
                  (\<exists>before h d k n kvs.
                     pre = before @
                       [SpanStarted (spans s + (length msgs - 1)) tr (pr (last msgs))
                          (Topic (last msgs) @ '' receive'')
                          [WithAttributes
                             (receive_attributes (receive_defaults c) (last msgs) @
                                [message_id (last msgs)]),
                           WithLinks [LinkFromContext (pr (last msgs))]],
                        Sent (last msgs),
                        SpanEnded (spans s + (length msgs - 1)),
                        Recorded h d kvs,
                        Added k n kvs] \<and>
                     delivered before = butlast msgs \<and>
                     started_spans before = [spans s ..< spans s + (length msgs - 1)] \<and>
                     ended_spans before = [spans s ..< spans s + (length msgs - 1)]))"
      using tail by blast
  qed
  have blocked: "demand < length msgs \<longrightarrow>
            (\<exists>s'. Run rt w msgs demand s = (Blocked, s') \<and>
               Closed \<notin> set (new_events s s') \<and>
               delivered (new_events s s') = take demand msgs \<and>
               ended_spans (new_events s s') = [spans s ..< spans s + demand])"
    using run ev
    by (auto simp: Closed_not_in_receive_trace delivered_append delivered_receive_trace
                   ended_spans_append ended_spans_receive_trace receive_start_def min_def)
  from full blocked show ?thesis by blast
qed

theorem output_closed_after_last_message_witness:
  "(\<exists>s' pre. Run ex_runtime ex_wrapper [ex_msg1, ex_msg2] 2 ex_world1 = (Returned (), s') \<and>
       new_events ex_world1 s' = pre @ [Closed] \<and> Closed \<notin> set pre \<and>
       delivered pre = [ex_msg1, ex_msg2] \<and>
       started_spans pre = [0, 1] \<and> ended_spans pre = [0, 1] \<and>
       (\<exists>before h d k n kvs.
          pre = before @
            [SpanStarted 1 ex_tracer (ex_propagator ex_msg2) (Topic ex_msg2 @ '' receive'')
               [WithAttributes
                  (receive_attributes (receive_defaults ex_config) ex_msg2 @ [message_id ex_msg2]),
                WithLinks [LinkFromContext (ex_propagator ex_msg2)]],
             Sent ex_msg2, SpanEnded 1, Recorded h d kvs, Added k n kvs] \<and>
          delivered before = [ex_msg1] \<and>
          started_spans before = [0] \<and> ended_spans before = [0])) \<and>
   (\<exists>s'. Run ex_runtime ex_wrapper [ex_msg1, ex_msg2] 1 ex_world1 = (Blocked, s') \<and>
       Closed \<notin> set (new_events ex_world1 s') \<and>
       delivered (new_events ex_world1 s') = [ex_msg1] \<and>
       ended_spans (new_events ex_world1 s') = [0])"
proof -
  have u: "[0 ..< 2] = [0, Suc 0]" "[0 ..< Suc 0] = [0]"
    by (simp_all add: upt_rec)
  from output_closed_after_last_message
          [OF ex_wrapper_constructed ex_config_fields(1) ex_config_fields(2),
           of "[ex_msg1, ex_msg2]" 2]
       output_closed_after_last_message
          [OF ex_wrapper_constructed ex_config_fields(1) ex_config_fields(2),
           of "[ex_msg1, ex_msg2]" 1]
  show ?thesis
    by (simp add: ex_world1_log u)
qed

text \<open>
  C7. For a wrapper built by its constructor, run on N messages that the reader of the
  output all receives: the log of \<open>Run\<close> is, message after message in the order of
  arrival, the start of the receive span, the delivery of the message on the output, the
  end of that span, the record of the receive duration and the addition to the counter
  of consumed messages, five events for each message with nothing in between, and then
  the closing of the output.
\<close>

theorem per_message_order:
  assumes "newConsumerMessagesDispatcherWrapper rt c s0 = (Returned w, s)"
    and "Propagators c = Some pr" and "Tracer c = Some tr" and "Meter c = Some m"
    and "length msgs \<le> demand"
  shows "\<exists>s'. Run rt w msgs demand s = (Returned (), s') \<and>
           length (new_events s s') = 5 * length msgs + 1 \<and>
           (\<forall>i < length msgs.
              take 5 (drop (5 * i) (new_events s s')) =
                [SpanStarted (spans s + i) tr (pr (msgs ! i)) (Topic (msgs ! i) @ '' receive'')
                   [WithAttributes
                      (receive_attributes (receive_defaults c) (msgs ! i) @ [message_id (msgs ! i)]),
                    WithLinks [LinkFromContext (pr (msgs ! i))]],
                 Sent (msgs ! i),
                 SpanEnded (spans s + i),
                 Recorded (MkFloat64Histogram m ''messaging.client.operation.duration'' ''s'')
                   (clock rt (ticks s + 2 * i + 1) - clock rt (ticks s + 2 * i))
                   (receive_attributes (receive_defaults c) (msgs ! i)),
                 Added (MkInt64Counter m ''messaging.client.consumed.messages'') 1
                   (receive_attributes (receive_defaults c) (msgs ! i))]) \<and>
           new_events s s' ! (5 * length msgs) = Closed"
proof -
  let ?rd = "MkFloat64Histogram m ''messaging.client.operation.duration'' ''s''"
  let ?cm = "MkInt64Counter m ''messaging.client.consumed.messages''"
  let ?D = "receive_defaults c"
  let ?tr = "receive_trace rt tr pr ?rd ?cm ?D (spans s) (ticks s) msgs"
  from Run_events[OF assms(1-4), of msgs demand] assms(5)
  obtain s' where run: "Run rt w msgs demand s = (Returned (), s')"
    and ev: "new_events s s' = ?tr @ [Closed]"
    by auto
  have len: "length (new_events s s') = 5 * length msgs + 1"
    using ev by (simp add: length_receive_trace)
  have blocks: "\<forall>i < length msgs.
              take 5 (drop (5 * i) (new_events s s')) =
                receive_events rt tr pr ?rd ?cm ?D (spans s + i) (ticks s + 2 * i) (msgs ! i)"
    using ev receive_trace_block[of _ msgs rt tr pr ?rd ?cm ?D "spans s" "ticks s" "[Closed]"]
    by simp
  have last: "new_events s s' ! (5 * length msgs) = Closed"
    using ev by (simp add: nth_append length_receive_trace)
  from run len blocks last show ?thesis
    by (simp add: receive_events_def receive_start_def)
qed

theorem per_message_order_witness:
  "\<exists>s'. Run ex_runtime ex_wrapper [ex_msg1, ex_msg2] 2 ex_world1 = (Returned (), s') \<and>
     length (new_events ex_world1 s') = 11 \<and>
     take 5 (drop 5 (new_events ex_world1 s')) =
       [SpanStarted 1 ex_tracer Background ''orders receive''
          [WithAttributes
             [(''messaging.system'', STRING ''kafka''),
              (''messaging.operation.name'', STRING ''receive''),
              (''server.address'', STRING ''localhost''),
              (''server.port'', INT64 9092),
              (''messaging.consumer.group.name'', STRING ''billing''),
              (''messaging.destination.name'', STRING ''orders''),
              (''messaging.destination.partition.id'', STRING ''3''),
              (''messaging.message.id'', STRING ''43'')],
           WithLinks [MkLink None]],
        Sent ex_msg2,
        SpanEnded 1,
        Recorded (MkFloat64Histogram ex_meter ''messaging.client.operation.duration'' ''s'')
          1000000
          [(''messaging.system'', STRING ''kafka''),
           (''messaging.operation.name'', STRING ''receive''),
           (''server.address'', STRING ''localhost''),
           (''server.port'', INT64 9092),
           (''messaging.consumer.group.name'', STRING ''billing''),
           (''messaging.destination.name'', STRING ''orders''),
           (''messaging.destination.partition.id'', STRING ''3'')],
        Added (MkInt64Counter ex_meter ''messaging.client.consumed.messages'') 1
          [(''messaging.system'', STRING ''kafka''),
           (''messaging.operation.name'', STRING ''receive''),
           (''server.address'', STRING ''localhost''),
           (''server.port'', INT64 9092),
           (''messaging.consumer.group.name'', STRING ''billing''),
           (''messaging.destination.name'', STRING ''orders''),
           (''messaging.destination.partition.id'', STRING ''3'')]] \<and>
     new_events ex_world1 s' ! 10 = Closed"
proof -
  have f3: "FormatInt (sint (3 :: 32 word)) = ''3''" by code_simp
  have f43: "FormatInt (sint (43 :: 64 word)) = ''43''" by code_simp
  have l: "length [ex_msg1, ex_msg2] \<le> 2" by simp
  have w: "world.spans ex_world1 = 0" "ticks ex_world1 = 0"
    using wrapper_constructed(6,7)[OF ex_wrapper_constructed] by (simp_all add: ex_world_def)
  from per_message_order[OF ex_wrapper_constructed ex_config_fields l]
  obtain s' where r: "Run ex_runtime ex_wrapper [ex_msg1, ex_msg2] 2 ex_world1 = (Returned (), s')"
    and n: "length (new_events ex_world1 s') = 5 * length [ex_msg1, ex_msg2] + 1"
    and b: "\<forall>i < length [ex_msg1, ex_msg2].
              take 5 (drop (5 * i) (new_events ex_world1 s')) =
                [SpanStarted (spans ex_world1 + i) ex_tracer (ex_propagator ([ex_msg1, ex_msg2] ! i))
                   (Topic ([ex_msg1, ex_msg2] ! i) @ '' receive'')
                   [WithAttributes
                      (receive_attributes (receive_defaults ex_config) ([ex_msg1, ex_msg2] ! i) @
                         [message_id ([ex_msg1, ex_msg2] ! i)]),
                    WithLinks [LinkFromContext (ex_propagator ([ex_msg1, ex_msg2] ! i))]],
                 Sent ([ex_msg1, ex_msg2] ! i),
                 SpanEnded (spans ex_world1 + i),
                 Recorded (MkFloat64Histogram ex_meter ''messaging.client.operation.duration'' ''s'')
                   (clock ex_runtime (ticks ex_world1 + 2 * i + 1) - clock ex_runtime (ticks ex_world1 + 2 * i))
                   (receive_attributes (receive_defaults ex_config) ([ex_msg1, ex_msg2] ! i)),
                 Added (MkInt64Counter ex_meter ''messaging.client.consumed.messages'') 1
                   (receive_attributes (receive_defaults ex_config) ([ex_msg1, ex_msg2] ! i))]"
    and c: "new_events ex_world1 s' ! (5 * length [ex_msg1, ex_msg2]) = Closed"
    by blast
  have i: "(1::nat) < length [ex_msg1, ex_msg2]" by simp
  note b1 = b[rule_format, OF i]
  have "take 5 (drop 5 (new_events ex_world1 s')) =
       [SpanStarted 1 ex_tracer Background ''orders receive''
          [WithAttributes
             [(''messaging.system'', STRING ''kafka''),
              (''messaging.operation.name'', STRING ''receive''),
              (''server.address'', STRING ''localhost''),
              (''server.port'', INT64 9092),
              (''messaging.consumer.group.name'', STRING ''billing''),
              (''messaging.destination.name'', STRING ''orders''),
              (''messaging.destination.partition.id'', STRING ''3''),
              (''messaging.message.id'', STRING ''43'')],
           WithLinks [MkLink None]],
        Sent ex_msg2,
        SpanEnded 1,
        Recorded (MkFloat64Histogram ex_meter ''messaging.client.operation.duration'' ''s'')
          1000000
          [(''messaging.system'', STRING ''kafka''),
           (''messaging.operation.name'', STRING ''receive''),
           (''server.address'', STRING ''localhost''),
           (''server.port'', INT64 9092),
           (''messaging.consumer.group.name'', STRING ''billing''),
           (''messaging.destination.name'', STRING ''orders''),
           (''messaging.destination.partition.id'', STRING ''3'')],
        Added (MkInt64Counter ex_meter ''messaging.client.consumed.messages'') 1
          [(''messaging.system'', STRING ''kafka''),
           (''messaging.operation.name'', STRING ''receive''),
           (''server.address'', STRING ''localhost''),
           (''server.port'', INT64 9092),
           (''messaging.consumer.group.name'', STRING ''billing''),
           (''messaging.destination.name'', STRING ''orders''),
           (''messaging.destination.partition.id'', STRING ''3'')]]"
    using b1 w f3 f43
    by (simp add: ex_msg2_def ex_propagator_def LinkFromContext_def receive_attributes_def
                  with_destination_def receive_defaults_def ex_config_def message_id_def
                  ex_runtime_def)
  with r n c show ?thesis by simp
qed

text \<open>
  C8. For a wrapper built by its constructor, run on messages that the reader of the
  output all receives: the log holds one record on the receive-duration histogram and
  one addition of 1 to the counter of consumed messages for each message, in the order
  of the messages, each with the default attributes followed by the destination (the
  topic) and the partition; the key of the message id is not among these attributes. The
  attributes of the receive span of a message are the same followed by the message id,
  which is the offset in decimal.
\<close>

theorem metrics_once_per_message:
  assumes "newConsumerMessagesDispatcherWrapper rt c s0 = (Returned w, s)"
    and "Propagators c = Some pr" and "Tracer c = Some tr" and "Meter c = Some m"
    and "length msgs \<le> demand"
  shows "\<exists>s'. Run rt w msgs demand s = (Returned (), s') \<and>
           histogram_records (new_events s s') =
             map (\<lambda>msg. (MkFloat64Histogram m ''messaging.client.operation.duration'' ''s'',
                          receive_attributes (receive_defaults c) msg)) msgs \<and>
           counter_additions (new_events s s') =
             map (\<lambda>msg. (MkInt64Counter m ''messaging.client.consumed.messages'', 1,
                          receive_attributes (receive_defaults c) msg)) msgs \<and>
           span_starts (new_events s s') =
             map (\<lambda>msg. (pr msg, Topic msg @ '' receive'',
                          [WithAttributes
                             (receive_attributes (receive_defaults c) msg @
                                [(''messaging.message.id'', STRING (FormatInt (sint (Offset msg))))]),
                           WithLinks [LinkFromContext (pr msg)]])) msgs \<and>
           (\<forall>msg. receive_attributes (receive_defaults c) msg =
                    receive_defaults c @
                      [(''messaging.destination.name'', STRING (Topic msg)),
                       (''messaging.destination.partition.id'',
                        STRING (FormatInt (sint (Partition msg))))] \<and>
                  ''messaging.message.id'' \<notin> fst ` set (receive_attributes (receive_defaults c) msg))"
proof -
  let ?rd = "MkFloat64Histogram m ''messaging.client.operation.duration'' ''s''"
  let ?cm = "MkInt64Counter m ''messaging.client.consumed.messages''"
  let ?D = "receive_defaults c"
  from Run_events[OF assms(1-4), of msgs demand] assms(5)
  obtain s' where run: "Run rt w msgs demand s = (Returned (), s')"
    and ev: "new_events s s' = receive_trace rt tr pr ?rd ?cm ?D (spans s) (ticks s) msgs @ [Closed]"
    by auto
  have h: "histogram_records (new_events s s') = map (\<lambda>msg. (?rd, receive_attributes ?D msg)) msgs"
    using ev by (simp add: histogram_records_append histogram_records_receive_trace)
  have a: "counter_additions (new_events s s') = map (\<lambda>msg. (?cm, 1, receive_attributes ?D msg)) msgs"
    using ev by (simp add: counter_additions_append counter_additions_receive_trace)
  have st: "span_starts (new_events s s') =
             map (\<lambda>msg. (pr msg, Topic msg @ '' receive'',
                          [WithAttributes
                             (receive_attributes ?D msg @
                                [(''messaging.message.id'', STRING (FormatInt (sint (Offset msg))))]),
                           WithLinks [LinkFromContext (pr msg)]])) msgs"
    using ev by (simp add: span_starts_append span_starts_receive_trace message_id_def)
  have at: "\<forall>msg. receive_attributes ?D msg =
                    ?D @ [(''messaging.destination.name'', STRING (Topic msg)),
                          (''messaging.destination.partition.id'',
                           STRING (FormatInt (sint (Partition msg))))] \<and>
                  ''messaging.message.id'' \<notin> fst ` set (receive_attributes ?D msg)"
    using message_id_not_in_receive_attributes
    by (simp add: receive_attributes_def with_destination_def)
  from run h a st at show ?thesis by blast
qed

theorem metrics_once_per_message_witness:
  "\<exists>s'. Run ex_runtime ex_wrapper [ex_msg1] 1 ex_world1 = (Returned (), s') \<and>
     histogram_records (new_events ex_world1 s') =
       [(MkFloat64Histogram ex_meter ''messaging.client.operation.duration'' ''s'',
         [(''messaging.system'', STRING ''kafka''),
          (''messaging.operation.name'', STRING ''receive''),
          (''server.address'', STRING ''localhost''),
          (''server.port'', INT64 9092),
          (''messaging.consumer.group.name'', STRING ''billing''),
          (''messaging.destination.name'', STRING ''orders''),
          (''messaging.destination.partition.id'', STRING ''3'')])] \<and>
     counter_additions (new_events ex_world1 s') =
       [(MkInt64Counter ex_meter ''messaging.client.consumed.messages'', 1,
         [(''messaging.system'', STRING ''kafka''),
          (''messaging.operation.name'', STRING ''receive''),
          (''server.address'', STRING ''localhost''),
          (''server.port'', INT64 9092),
          (''messaging.consumer.group.name'', STRING ''billing''),
          (''messaging.destination.name'', STRING ''orders''),
          (''messaging.destination.partition.id'', STRING ''3'')])] \<and>
     span_starts (new_events ex_world1 s') =
       [(WithRemoteSpanContext (MkSpanContext ''abc'' ''01''), ''orders receive'',
         [WithAttributes
            [(''messaging.system'', STRING ''kafka''),
             (''messaging.operation.name'', STRING ''receive''),
             (''server.address'', STRING ''localhost''),
             (''server.port'', INT64 9092),
             (''messaging.consumer.group.name'', STRING ''billing''),
             (''messaging.destination.name'', STRING ''orders''),
             (''messaging.destination.partition.id'', STRING ''3''),
             (''messaging.message.id'', STRING ''42'')],
          WithLinks [MkLink (Some (MkSpanContext ''abc'' ''01''))]])]"
proof -
  have f3: "FormatInt (sint (3 :: 32 word)) = ''3''" by code_simp
  have f42: "FormatInt (sint (42 :: 64 word)) = ''42''" by code_simp
  have l: "length [ex_msg1] \<le> 1" by simp
  from metrics_once_per_message[OF ex_wrapper_constructed ex_config_fields l] f3 f42
  show ?thesis
    by (simp add: ex_msg1_def ex_propagator_def LinkFromContext_def receive_defaults_def
                  ex_config_def receive_attributes_def with_destination_def)
qed

section \<open>The process operation\<close>

text \<open>
  C2. \<open>Stop\<close> on an operation returned by \<open>NewProcessOperation\<close>. The operation does not
  hold the instrumenter that opened it but the zero instrumenter, whose histogram is
  \<open>nil\<close> and whose default attributes are the \<open>nil\<close> slice. So, in whatever world \<open>Stop\<close>
  runs, it ends the span, panics on the \<open>nil\<close> histogram, and records no duration.
\<close>

theorem Stop_panics_before_recording:
  assumes "NewProcessOperation rt inst msg s = (Returned op, s1)"
  shows "instrumenter op = zero_MessageProcessInstrumenter \<and>
         metricProcessDuration (instrumenter op) = None \<and>
         pi_defaultAttributes (instrumenter op) = nil_slice \<and>
         (\<exists>s3. Stop rt op s2 = (Panicked, s3) \<and>
                new_events s2 s3 = [SpanEnded (spans s)] \<and>
                histogram_records (new_events s2 s3) = [])"
proof -
  note r = NewProcessOperation_returned[OF assms]
  have n: "metricProcessDuration (instrumenter op) = None"
    "pi_defaultAttributes (instrumenter op) = nil_slice"
    using r(1) by (simp_all add: zero_MessageProcessInstrumenter_def)
  from Stop_without_histogram[OF r(2) n(1), of rt s2] r(1) n
  show ?thesis by (auto simp: new_events_def)
qed

theorem Stop_panics_before_recording_witness:
  "NewMessageProcessInstrumenter ex_runtime ex_globals ex_options ex_world =
     (Returned ex_instrumenter, ex_world2) \<and>
   NewProcessOperation ex_runtime ex_instrumenter ex_msg1 ex_world2 =
     (Returned ex_operation, ex_world3) \<and>
   (\<exists>s3. Stop ex_runtime ex_operation ex_world3 = (Panicked, s3) \<and>
          new_events ex_world3 s3 = [SpanEnded 0] \<and>
          histogram_records (new_events ex_world3 s3) = [])"
  using Stop_panics_before_recording[OF ex_operation_opened, of ex_world3]
        ex_instrumenter_constructed ex_operation_opened ex_world2_log
  by simp

text \<open>
  C5. \<open>Stop\<close> after \<open>SetError\<close> on an operation returned by \<open>NewProcessOperation\<close>, whether
  the error is \<open>nil\<close> or not: the call panics and no attribute set is recorded on any
  histogram, so none with an \<open>error.type\<close> attribute.
\<close>

theorem error_type_never_recorded:
  assumes "NewProcessOperation rt inst msg s = (Returned op, s1)"
  shows "\<exists>s3. Stop rt (SetError e op) s2 = (Panicked, s3) \<and>
              histogram_records (new_events s2 s3) = [] \<and>
              (\<forall>h d kvs. Recorded h d kvs \<notin> set (new_events s2 s3))"
proof -
  note r = NewProcessOperation_returned[OF assms]
  have sp: "span (SetError e op) = Some (spans s)"
    and n: "metricProcessDuration (instrumenter (SetError e op)) = None"
    using r(1,2) by (simp_all add: SetError_def zero_MessageProcessInstrumenter_def)
  from Stop_without_histogram[OF sp n, of rt s2]
  show ?thesis by (auto simp: new_events_def)
qed

theorem error_type_never_recorded_witness:
  "\<exists>s3. Stop ex_runtime (SetError (Some ''boom'') ex_operation) ex_world3 = (Panicked, s3) \<and>
         histogram_records (new_events ex_world3 s3) = [] \<and>
         (\<forall>h d kvs. Recorded h d kvs \<notin> set (new_events ex_world3 s3))"
  using error_type_never_recorded[OF ex_operation_opened, of "Some ''boom''" ex_world3]
  by simp

section \<open>The shared default attributes\<close>

text \<open>
  The extension of the default attributes is not always a copy. The wrapper of the
  concrete setting has five default attributes in an array of capacity 8: \<open>Run\<close> on two
  messages allocates no array, and afterwards the three spare slots of the array of the
  default attributes hold the destination, the partition and the message id of the
  second message, written over those of the first.
\<close>

theorem extension_written_in_place:
  "newConsumerMessagesDispatcherWrapper ex_runtime ex_config ex_world =
     (Returned ex_wrapper, ex_world1) \<and>
   dw_defaultAttributes ex_wrapper = \<lparr>ptr = 2, len = 5, cap = 8\<rparr> \<and>
   length (heap ex_world1) = 3 \<and>
   heap ex_world1 ! 2 =
     [(''messaging.system'', STRING ''kafka''),
      (''messaging.operation.name'', STRING ''receive''),
      (''server.address'', STRING ''localhost''),
      (''server.port'', INT64 9092),
      (''messaging.consumer.group.name'', STRING ''billing''),
      ([], INVALID), ([], INVALID), ([], INVALID)] \<and>
   length (heap (snd (Run ex_runtime ex_wrapper [ex_msg1, ex_msg2] 2 ex_world1))) = 3 \<and>
   heap (snd (Run ex_runtime ex_wrapper [ex_msg1, ex_msg2] 2 ex_world1)) ! 2 =
     [(''messaging.system'', STRING ''kafka''),
      (''messaging.operation.name'', STRING ''receive''),
      (''server.address'', STRING ''localhost''),
      (''server.port'', INT64 9092),
      (''messaging.consumer.group.name'', STRING ''billing''),
      (''messaging.destination.name'', STRING ''orders''),
      (''messaging.destination.partition.id'', STRING ''3''),
      (''messaging.message.id'', STRING ''43'')]"
proof -
  have after: "heap (snd (Run ex_runtime ex_wrapper [ex_msg1, ex_msg2] 2 ex_world1)) =
     [(''messaging.system'', STRING ''kafka'') #
      (''messaging.operation.name'', STRING ''receive'') # [],
      [(''messaging.system'', STRING ''kafka''),
       (''messaging.operation.name'', STRING ''receive''),
       (''server.address'', STRING ''localhost''),
       (''server.port'', INT64 9092)],
      [(''messaging.system'', STRING ''kafka''),
       (''messaging.operation.name'', STRING ''receive''),
       (''server.address'', STRING ''localhost''),
       (''server.port'', INT64 9092),
       (''messaging.consumer.group.name'', STRING ''billing''),
       (''messaging.destination.name'', STRING ''orders''),
       (''messaging.destination.partition.id'', STRING ''3''),
       (''messaging.message.id'', STRING ''43'')]]"
    by (simp add: ex_world1_value Run_def Run_iteration_def Now_def go_append_def
          append_slice_def Let_def ex_wrapper_def ex_config_def ex_runtime_def ex_msg1_def
          ex_msg2_def emit_def MessagingDestinationName_def attribute_String_def
          FormatInt_3 FormatInt_42 FormatInt_43 slice_elems_def)
  have before: "length (heap ex_world1) = 3 \<and>
     heap ex_world1 ! 2 =
       [(''messaging.system'', STRING ''kafka''),
        (''messaging.operation.name'', STRING ''receive''),
        (''server.address'', STRING ''localhost''),
        (''server.port'', INT64 9092),
        (''messaging.consumer.group.name'', STRING ''billing''),
        ([], INVALID), ([], INVALID), ([], INVALID)]"
    by (simp add: ex_world1_value)
  have sl: "dw_defaultAttributes ex_wrapper = \<lparr>ptr = 2, len = 5, cap = 8\<rparr>"
    by (simp add: ex_wrapper_def)
  from ex_wrapper_constructed sl before after show ?thesis by simp
qed

text \<open>
  C9. The default attributes are built by the two constructors, as a slice that is in
  order in the store. No operation on a message writes into them: after \<open>Run\<close> on any
  sequence of messages, however it ends, after \<open>NewProcessOperation\<close>, and after \<open>Stop\<close>
  on an operation that holds the instrumenter or the zero instrumenter, the slice of
  default attributes is still in order and has the elements it had before, for every
  growth policy of \<open>append\<close>. The extension itself is an \<open>append\<close>: when the capacity
  of the slice suffices it writes in place, behind the length of the slice in the same
  array, and allocates nothing; otherwise it copies into a fresh array.
\<close>

theorem default_attributes_never_mutated:
  "(newConsumerMessagesDispatcherWrapper rt c s0 = (Returned w0, s1) \<longrightarrow>
      heap_ok (heap s1) (dw_defaultAttributes w0) \<and>
      slice_elems (heap s1) (dw_defaultAttributes w0) = receive_defaults c) \<and>
   (NewMessageProcessInstrumenter rt g opts s0 = (Returned inst0, s2) \<longrightarrow>
      heap_ok (heap s2) (pi_defaultAttributes inst0) \<and>
      slice_elems (heap s2) (pi_defaultAttributes inst0) = process_defaults (pi_cfg inst0)) \<and>
   (heap_ok (heap s) (dw_defaultAttributes w) \<and> Run rt w msgs demand s = (r, s') \<longrightarrow>
      heap_ok (heap s') (dw_defaultAttributes w) \<and>
      slice_elems (heap s') (dw_defaultAttributes w) = slice_elems (heap s) (dw_defaultAttributes w)) \<and>
   (heap_ok (heap s) (pi_defaultAttributes inst) \<and>
    NewProcessOperation rt inst msg s = (ro, so) \<longrightarrow>
      heap_ok (heap so) (pi_defaultAttributes inst) \<and>
      slice_elems (heap so) (pi_defaultAttributes inst) = slice_elems (heap s) (pi_defaultAttributes inst)) \<and>
   (heap_ok (heap s) (pi_defaultAttributes inst) \<and>
    (instrumenter op = inst \<or> instrumenter op = zero_MessageProcessInstrumenter) \<and>
    Stop rt op s = (rs, ss) \<longrightarrow>
      heap_ok (heap ss) (pi_defaultAttributes inst) \<and>
      slice_elems (heap ss) (pi_defaultAttributes inst) = slice_elems (heap s) (pi_defaultAttributes inst)) \<and>
   (len sl + length vs \<le> cap sl \<and> go_append rt sl vs s = (sl', sx) \<longrightarrow>
      ptr sl' = ptr sl \<and> length (heap sx) = length (heap s)) \<and>
   (cap sl < len sl + length vs \<and> go_append rt sl vs s = (sl', sx) \<longrightarrow>
      ptr sl' = length (heap s) \<and> length (heap sx) = Suc (length (heap s)))"
proof -
  have built_w: "newConsumerMessagesDispatcherWrapper rt c s0 = (Returned w0, s1) \<longrightarrow>
      heap_ok (heap s1) (dw_defaultAttributes w0) \<and>
      slice_elems (heap s1) (dw_defaultAttributes w0) = receive_defaults c"
    using wrapper_constructed(3,4) by blast
  have built_i: "NewMessageProcessInstrumenter rt g opts s0 = (Returned inst0, s2) \<longrightarrow>
      heap_ok (heap s2) (pi_defaultAttributes inst0) \<and>
      slice_elems (heap s2) (pi_defaultAttributes inst0) = process_defaults (pi_cfg inst0)"
    using instrumenter_constructed(1,2) by blast
  have run: "heap_ok (heap s) (dw_defaultAttributes w) \<and> Run rt w msgs demand s = (r, s') \<longrightarrow>
      heap_ok (heap s') (dw_defaultAttributes w) \<and>
      slice_elems (heap s') (dw_defaultAttributes w) = slice_elems (heap s) (dw_defaultAttributes w)"
    using Run_frame[OF _ _ out_of_reach_refl] by blast
  have opn: "heap_ok (heap s) (pi_defaultAttributes inst) \<and>
    NewProcessOperation rt inst msg s = (ro, so) \<longrightarrow>
      heap_ok (heap so) (pi_defaultAttributes inst) \<and>
      slice_elems (heap so) (pi_defaultAttributes inst) = slice_elems (heap s) (pi_defaultAttributes inst)"
    using NewProcessOperation_frame[OF _ _ out_of_reach_refl] by blast
  have stp: "heap_ok (heap s) (pi_defaultAttributes inst) \<and>
    (instrumenter op = inst \<or> instrumenter op = zero_MessageProcessInstrumenter) \<and>
    Stop rt op s = (rs, ss) \<longrightarrow>
      heap_ok (heap ss) (pi_defaultAttributes inst) \<and>
      slice_elems (heap ss) (pi_defaultAttributes inst) = slice_elems (heap s) (pi_defaultAttributes inst)"
  proof (intro impI, elim conjE)
    assume ok: "heap_ok (heap s) (pi_defaultAttributes inst)"
      and st: "Stop rt op s = (rs, ss)"
      and which: "instrumenter op = inst \<or> instrumenter op = zero_MessageProcessInstrumenter"
    from which show "heap_ok (heap ss) (pi_defaultAttributes inst) \<and>
      slice_elems (heap ss) (pi_defaultAttributes inst) = slice_elems (heap s) (pi_defaultAttributes inst)"
    proof
      assume "instrumenter op = inst"
      then show ?thesis
        using Stop_frame[OF _ ok _ st] ok out_of_reach_refl by simp
    next
      assume z: "instrumenter op = zero_MessageProcessInstrumenter"
      then have d: "pi_defaultAttributes (instrumenter op) = nil_slice"
        by (simp add: zero_MessageProcessInstrumenter_def)
      show ?thesis
        using Stop_frame[OF _ ok _ st] d heap_ok_nil out_of_reach_nil by simp
    qed
  qed
  have inplace: "len sl + length vs \<le> cap sl \<and> go_append rt sl vs s = (sl', sx) \<longrightarrow>
      ptr sl' = ptr sl \<and> length (heap sx) = length (heap s)"
    using go_append_in_place by blast
  have fresh: "cap sl < len sl + length vs \<and> go_append rt sl vs s = (sl', sx) \<longrightarrow>
      ptr sl' = length (heap s) \<and> length (heap sx) = Suc (length (heap s))"
    using go_append_fresh by blast
  from built_w built_i run opn stp inplace fresh show ?thesis by blast
qed

theorem default_attributes_never_mutated_witness:
  "slice_elems (heap ex_world1) (dw_defaultAttributes ex_wrapper) =
     [(''messaging.system'', STRING ''kafka''),
      (''messaging.operation.name'', STRING ''receive''),
      (''server.address'', STRING ''localhost''),
      (''server.port'', INT64 9092),
      (''messaging.consumer.group.name'', STRING ''billing'')] \<and>
   slice_elems (heap (snd (Run ex_runtime ex_wrapper [ex_msg1, ex_msg2] 2 ex_world1)))
       (dw_defaultAttributes ex_wrapper) =
     [(''messaging.system'', STRING ''kafka''),
      (''messaging.operation.name'', STRING ''receive''),
      (''server.address'', STRING ''localhost''),
      (''server.port'', INT64 9092),
      (''messaging.consumer.group.name'', STRING ''billing'')] \<and>
   slice_elems (heap ex_world3) (pi_defaultAttributes ex_instrumenter) =
     [(''messaging.system'', STRING ''kafka''),
      (''messaging.operation.name'', STRING ''process''),
      (''server.address'', STRING ''localhost''),
      (''server.port'', INT64 9092)] \<and>
   slice_elems (heap (snd (Stop ex_runtime (SetError (Some ''boom'') ex_operation) ex_world3)))
       (pi_defaultAttributes ex_instrumenter) =
     [(''messaging.system'', STRING ''kafka''),
      (''messaging.operation.name'', STRING ''process''),
      (''server.address'', STRING ''localhost''),
      (''server.port'', INT64 9092)] \<and>
   ptr (fst (go_append ex_runtime (dw_defaultAttributes ex_wrapper)
               [MessagingDestinationName ''orders''] ex_world1)) =
     ptr (dw_defaultAttributes ex_wrapper) \<and>
   ptr (fst (go_append ex_runtime (pi_defaultAttributes ex_instrumenter)
               [MessagingDestinationName ''orders''] ex_world2)) =
     length (heap ex_world2)"
proof -
  note t = default_attributes_never_mutated
  have a: "heap_ok (heap ex_world1) (dw_defaultAttributes ex_wrapper) \<and>
           slice_elems (heap ex_world1) (dw_defaultAttributes ex_wrapper) = receive_defaults ex_config"
    using t[THEN conjunct1, of ex_runtime ex_config ex_world ex_wrapper ex_world1]
          ex_wrapper_constructed by simp
  have b: "heap_ok (heap ex_world2) (pi_defaultAttributes ex_instrumenter) \<and>
           slice_elems (heap ex_world2) (pi_defaultAttributes ex_instrumenter) =
             process_defaults (pi_cfg ex_instrumenter)"
    using t[THEN conjunct2, THEN conjunct1,
            of ex_runtime ex_globals ex_options ex_world ex_instrumenter ex_world2]
          ex_instrumenter_constructed by simp
  have c: "slice_elems (heap (snd (Run ex_runtime ex_wrapper [ex_msg1, ex_msg2] 2 ex_world1)))
             (dw_defaultAttributes ex_wrapper) =
           slice_elems (heap ex_world1) (dw_defaultAttributes ex_wrapper)"
    using t[THEN conjunct2, THEN conjunct2, THEN conjunct1,
            of ex_world1 ex_wrapper ex_runtime "[ex_msg1, ex_msg2]" 2
               "fst (Run ex_runtime ex_wrapper [ex_msg1, ex_msg2] 2 ex_world1)"
               "snd (Run ex_runtime ex_wrapper [ex_msg1, ex_msg2] 2 ex_world1)"] a
    by simp
  have d: "heap_ok (heap ex_world3) (pi_defaultAttributes ex_instrumenter) \<and>
           slice_elems (heap ex_world3) (pi_defaultAttributes ex_instrumenter) =
           slice_elems (heap ex_world2) (pi_defaultAttributes ex_instrumenter)"
    using t[THEN conjunct2, THEN conjunct2, THEN conjunct2, THEN conjunct1,
            of ex_world2 ex_instrumenter ex_runtime ex_msg1 "Returned ex_operation" ex_world3]
          b ex_operation_opened
    by simp
  have e: "slice_elems (heap (snd (Stop ex_runtime (SetError (Some ''boom'') ex_operation) ex_world3)))
             (pi_defaultAttributes ex_instrumenter) =
           slice_elems (heap ex_world3) (pi_defaultAttributes ex_instrumenter)"
    using t[THEN conjunct2, THEN conjunct2, THEN conjunct2, THEN conjunct2, THEN conjunct1,
            of ex_world3 ex_instrumenter "SetError (Some ''boom'') ex_operation" ex_runtime
               "fst (Stop ex_runtime (SetError (Some ''boom'') ex_operation) ex_world3)"
               "snd (Stop ex_runtime (SetError (Some ''boom'') ex_operation) ex_world3)"] d
    by (simp add: SetError_def ex_operation_def)
  have f: "ptr (fst (go_append ex_runtime (dw_defaultAttributes ex_wrapper)
               [MessagingDestinationName ''orders''] ex_world1)) =
     ptr (dw_defaultAttributes ex_wrapper)"
    using t[THEN conjunct2, THEN conjunct2, THEN conjunct2, THEN conjunct2, THEN conjunct2,
            THEN conjunct1,
            of "dw_defaultAttributes ex_wrapper" "[MessagingDestinationName ''orders'']"
               ex_runtime ex_world1
               "fst (go_append ex_runtime (dw_defaultAttributes ex_wrapper)
                       [MessagingDestinationName ''orders''] ex_world1)"
               "snd (go_append ex_runtime (dw_defaultAttributes ex_wrapper)
                       [MessagingDestinationName ''orders''] ex_world1)"]
    by (simp add: ex_wrapper_def)
  have g: "ptr (fst (go_append ex_runtime (pi_defaultAttributes ex_instrumenter)
               [MessagingDestinationName ''orders''] ex_world2)) =
     length (heap ex_world2)"
    using t[THEN conjunct2, THEN conjunct2, THEN conjunct2, THEN conjunct2, THEN conjunct2,
            THEN conjunct2,
            of "pi_defaultAttributes ex_instrumenter" "[MessagingDestinationName ''orders'']"
               ex_runtime ex_world2
               "fst (go_append ex_runtime (pi_defaultAttributes ex_instrumenter)
                       [MessagingDestinationName ''orders''] ex_world2)"
               "snd (go_append ex_runtime (pi_defaultAttributes ex_instrumenter)
                       [MessagingDestinationName ''orders''] ex_world2)"]
    by (simp add: ex_instrumenter_def)
  from a b c d e f g show ?thesis
    by (simp add: receive_defaults_def process_defaults_def ex_config_def ex_instrumenter_def)
qed

section \<open>Links and parents of the spans\<close>

text \<open>
  A message whose header \<open>traceparent\<close> holds a span context, received by the wrapper and
  opened by the instrumenter of the concrete setting: the receive span and the process
  span both have the extracted span context as their parent, besides their link to it.
\<close>

theorem spans_are_children_of_the_extracted_context:
  "newConsumerMessagesDispatcherWrapper ex_runtime ex_config ex_world =
     (Returned ex_wrapper, ex_world1) \<and>
   NewMessageProcessInstrumenter ex_runtime ex_globals ex_options ex_world =
     (Returned ex_instrumenter, ex_world2) \<and>
   ex_propagator ex_msg1 = WithRemoteSpanContext (MkSpanContext ''abc'' ''01'') \<and>
   span_relations (events (snd (Run ex_runtime ex_wrapper [ex_msg1] 1 ex_world1))) =
     [(Some (MkSpanContext ''abc'' ''01''), [MkLink (Some (MkSpanContext ''abc'' ''01''))])] \<and>
   span_relations (events (snd (NewProcessOperation ex_runtime ex_instrumenter ex_msg1 ex_world2))) =
     [(Some (MkSpanContext ''abc'' ''01''), [MkLink (Some (MkSpanContext ''abc'' ''01''))])]"
proof -
  have p: "ex_propagator ex_msg1 = WithRemoteSpanContext (MkSpanContext ''abc'' ''01'')"
    by (simp add: ex_propagator_def ex_msg1_def)
  from Run_events[OF ex_wrapper_constructed ex_config_fields, of "[ex_msg1]" 1]
  have r: "span_relations (events (snd (Run ex_runtime ex_wrapper [ex_msg1] 1 ex_world1))) =
     [(Some (MkSpanContext ''abc'' ''01''), [MkLink (Some (MkSpanContext ''abc'' ''01''))])]"
    using p
    by (auto simp: new_events_def ex_world1_log span_relations_append
                   span_relations_receive_trace LinkFromContext_def
                   receive_events_def receive_start_def span_parent_def)
  have ok: "heap_ok (heap ex_world2) (pi_defaultAttributes ex_instrumenter)"
    by (rule instrumenter_constructed(2)[OF ex_instrumenter_constructed])
  have c: "Propagators (pi_cfg ex_instrumenter) = Some ex_propagator"
      "Tracer (pi_cfg ex_instrumenter) = Some ex_tracer"
    by (simp_all add: ex_instrumenter_def ex_config_def)
  from NewProcessOperation_result[OF ok c, of ex_runtime ex_msg1]
  have o: "span_relations (events (snd (NewProcessOperation ex_runtime ex_instrumenter ex_msg1 ex_world2))) =
     [(Some (MkSpanContext ''abc'' ''01''), [MkLink (Some (MkSpanContext ''abc'' ''01''))])]"
    using p by (auto simp: ex_world2_log span_parent_def LinkFromContext_def)
  from ex_wrapper_constructed ex_instrumenter_constructed p r o show ?thesis by simp
qed

text \<open>
  C1. The receive span of every message for which the wrapper starts one (the messages
  that the reader of the output receives, and the one after them, on whose send the
  wrapper blocks) and the process span that \<open>NewProcessOperation\<close> starts are started with
  the context extracted from the headers of the message as the context argument, with
  no option for a new root, and with the option of one link, made from that extracted
  context. So, when the headers hold a span context, the span is a child of that span
  context and also carries one link to it; when they hold none, the span has no parent
  and no link, the link to the empty span context being dropped.
\<close>

theorem spans_linked_and_parented:
  assumes "newConsumerMessagesDispatcherWrapper rt c s0 = (Returned w, s)"
    and "Propagators c = Some pr" and "Tracer c = Some tr"
    and "heap_ok (heap si) (pi_defaultAttributes inst)"
    and "Propagators (pi_cfg inst) = Some pri" and "Tracer (pi_cfg inst) = Some tri"
  shows "span_starts (new_events s (snd (Run rt w msgs demand s))) =
           map (\<lambda>msg. (pr msg, Topic msg @ '' receive'',
                        [WithAttributes
                           (receive_attributes (receive_defaults c) msg @ [message_id msg]),
                         WithLinks [LinkFromContext (pr msg)]]))
             (take (Suc demand) msgs) \<and>
         span_relations (new_events s (snd (Run rt w msgs demand s))) =
           map (\<lambda>msg. (SpanContextFromContext (pr msg),
                        case SpanContextFromContext (pr msg) of
                          None \<Rightarrow> []
                        | Some sc \<Rightarrow> [MkLink (Some sc)]))
             (take (Suc demand) msgs) \<and>
         span_starts (new_events si (snd (NewProcessOperation rt inst msg si))) =
           [(pri msg, Topic msg @ '' process'',
             [WithAttributes
                (slice_elems (heap si) (pi_defaultAttributes inst) @
                   [(''messaging.destination.name'', STRING (Topic msg)),
                    message_id msg,
                    (''messaging.destination.partition.id'',
                     STRING (FormatInt (sint (Partition msg))))]),
              WithSpanKind SpanKindConsumer,
              WithLinks [LinkFromContext (pri msg)]])] \<and>
         span_relations (new_events si (snd (NewProcessOperation rt inst msg si))) =
           [(SpanContextFromContext (pri msg),
             case SpanContextFromContext (pri msg) of
               None \<Rightarrow> []
             | Some sc \<Rightarrow> [MkLink (Some sc)])]"
proof -
  obtain m where m: "Meter c = Some m"
    using wrapper_constructed(1)[OF assms(1)] by blast
  have tk: "demand < length msgs \<Longrightarrow> take (Suc demand) msgs = take demand msgs @ [msgs ! demand]"
    by (simp add: take_Suc_conv_app_nth)
  note run = Run_events[OF assms(1-3) m, of msgs demand]
  from run have a0: "span_starts (new_events s (snd (Run rt w msgs demand s))) =
           map (\<lambda>msg. (pr msg, Topic msg @ '' receive'',
                        [WithAttributes
                           (receive_attributes (receive_defaults c) msg @ [message_id msg]),
                         WithLinks [LinkFromContext (pr msg)]]))
             (take (Suc demand) msgs)"
    using tk
    by (auto simp: span_starts_append span_starts_receive_trace receive_start_def)
  from run have a: "span_relations (new_events s (snd (Run rt w msgs demand s))) =
           map (\<lambda>msg. (SpanContextFromContext (pr msg),
                        case SpanContextFromContext (pr msg) of
                          None \<Rightarrow> []
                        | Some sc \<Rightarrow> [MkLink (Some sc)]))
             (take (Suc demand) msgs)"
    using tk
    by (auto simp: span_relations_append span_relations_receive_trace
                   links_kept_LinkFromContext receive_start_def span_parent_def)
  note opn = NewProcessOperation_result[OF assms(4-6), of rt msg]
  from opn have b0: "span_starts (new_events si (snd (NewProcessOperation rt inst msg si))) =
           [(pri msg, Topic msg @ '' process'',
             [WithAttributes
                (slice_elems (heap si) (pi_defaultAttributes inst) @
                   [(''messaging.destination.name'', STRING (Topic msg)),
                    message_id msg,
                    (''messaging.destination.partition.id'',
                     STRING (FormatInt (sint (Partition msg))))]),
              WithSpanKind SpanKindConsumer,
              WithLinks [LinkFromContext (pri msg)]])]"
    by (auto simp: new_events_def)
  from opn have b: "span_relations (new_events si (snd (NewProcessOperation rt inst msg si))) =
           [(SpanContextFromContext (pri msg),
             case SpanContextFromContext (pri msg) of
               None \<Rightarrow> []
             | Some sc \<Rightarrow> [MkLink (Some sc)])]"
    by (auto simp: new_events_def span_parent_def links_kept_LinkFromContext)
  from a0 a b0 b show ?thesis by simp
qed

theorem spans_linked_and_parented_witness:
  "span_relations (new_events ex_world1 (snd (Run ex_runtime ex_wrapper [ex_msg1, ex_msg2] 2 ex_world1))) =
     [(Some (MkSpanContext ''abc'' ''01''), [MkLink (Some (MkSpanContext ''abc'' ''01''))]),
      (None, [])] \<and>
   span_relations (new_events ex_world2 (snd (NewProcessOperation ex_runtime ex_instrumenter ex_msg1 ex_world2))) =
     [(Some (MkSpanContext ''abc'' ''01''), [MkLink (Some (MkSpanContext ''abc'' ''01''))])] \<and>
   span_relations (new_events ex_world2 (snd (NewProcessOperation ex_runtime ex_instrumenter ex_msg2 ex_world2))) =
     [(None, [])]"
proof -
  have ok: "heap_ok (heap ex_world2) (pi_defaultAttributes ex_instrumenter)"
    by (rule instrumenter_constructed(2)[OF ex_instrumenter_constructed])
  have c: "Propagators (pi_cfg ex_instrumenter) = Some ex_propagator"
      "Tracer (pi_cfg ex_instrumenter) = Some ex_tracer"
    by (simp_all add: ex_instrumenter_def ex_config_def)
  from spans_linked_and_parented
         [OF ex_wrapper_constructed ex_config_fields(1) ex_config_fields(2) ok c,
          of "[ex_msg1, ex_msg2]" 2 ex_msg1]
       spans_linked_and_parented
         [OF ex_wrapper_constructed ex_config_fields(1) ex_config_fields(2) ok c,
          of "[ex_msg1, ex_msg2]" 2 ex_msg2]
  show ?thesis
    by (simp add: ex_propagator_def ex_msg1_def ex_msg2_def)
qed


end
